theory Spec2Isabelle
  imports Main
begin

section \<open>JavaScript values and errors\<close>

text \<open>
  The server is written in JavaScript (src/lib/velocity.js). Tool arguments, GraphQL
  variables and the bodies returned by the remote service are untyped values: they are
  modelled by one datatype. An object is the list of its own properties in enumeration
  order (keys distinct); \<open>JUndefined\<close> is the value of an omitted argument or a missing
  property. A string is the list of its code units, all below 256. The code never
  calculates with numbers: it tests them for truthiness and prints them. So a number is
  carried as the text that JavaScript prints for it (Number::toString: \<open>0\<close> for both
  zeros, \<open>0.5\<close>, \<open>-12\<close>, \<open>1e+21\<close>, \<open>Infinity\<close>, \<open>NaN\<close>), which is all the code can
  observe of it.
\<close>

datatype jsval =
    JUndefined
  | JNull
  | JBool bool
  | JNum string
  | JStr string
  | JArr "jsval list"
  | JObj "(string \<times> jsval) list"

text \<open>What \<open>throw\<close> carries: \<open>new Error(msg)\<close> and the two runtime errors the code can meet.\<close>

datatype js_error = Error string | TypeError string | SyntaxError string

fun message :: "js_error \<Rightarrow> string" where
  "message (Error m) = m"
| "message (TypeError m) = m"
| "message (SyntaxError m) = m"

text \<open>ToBoolean, as used by \<open>!x\<close>, \<open>if (x)\<close> and \<open>x || y\<close>.\<close>

fun truthy :: "jsval \<Rightarrow> bool" where
  "truthy JUndefined = False"
| "truthy JNull = False"
| "truthy (JBool b) = b"
| "truthy (JNum t) = (t \<noteq> ''0'' \<and> t \<noteq> ''NaN'')"
| "truthy (JStr s) = (s \<noteq> [])"
| "truthy (JArr xs) = True"
| "truthy (JObj ps) = True"

text \<open>\<open>a || b\<close>: the first operand when it is truthy, the second otherwise.\<close>

definition js_or :: "jsval \<Rightarrow> jsval \<Rightarrow> jsval" where
  "js_or a b = (if truthy a then a else b)"

definition squote :: char where
  "squote = CHR 0x27"

definition dquote :: char where
  "dquote = CHR 0x22"

definition backslash :: char where
  "backslash = CHR 0x5C"

definition newline :: char where
  "newline = CHR 0x0A"

text \<open>Decimal rendering of a number inside a template literal.\<close>

definition digit_char :: "nat \<Rightarrow> char" where
  "digit_char d = char_of (of_char (CHR ''0'') + d)"

fun show_nat :: "nat \<Rightarrow> string" where
  "show_nat n = (if n < 10 then [digit_char n] else show_nat (n div 10) @ [digit_char (n mod 10)])"

declare show_nat.simps [simp del]

text \<open>Reading a decimal rendering back, to state that \<open>show_nat\<close> loses nothing.\<close>

definition digit_value :: "char \<Rightarrow> nat" where
  "digit_value c = of_char c - of_char (CHR ''0'')"

definition read_nat :: "string \<Rightarrow> nat" where
  "read_nat s = foldl (\<lambda>acc c. 10 * acc + digit_value c) 0 s"

text \<open>
  Property read \<open>x.p\<close>, for the property names this code reads. Reading a property of
  \<open>undefined\<close> or \<open>null\<close> throws a TypeError (the message is the one of V8, the engine of
  Node.js); an object gives its own property or \<open>undefined\<close>; an array and a string have
  the built-in \<open>length\<close>; every other read gives \<open>undefined\<close> (the other names the code
  reads are not built-in properties of any value).
\<close>

fun get_prop :: "jsval \<Rightarrow> string \<Rightarrow> js_error + jsval" where
  "get_prop JUndefined p =
     Inl (TypeError (''Cannot read properties of undefined (reading '' @ [squote] @ p @ [squote] @ '')''))"
| "get_prop JNull p =
     Inl (TypeError (''Cannot read properties of null (reading '' @ [squote] @ p @ [squote] @ '')''))"
| "get_prop (JObj ps) p = Inr (case map_of ps p of None \<Rightarrow> JUndefined | Some v \<Rightarrow> v)"
| "get_prop (JArr xs) p = Inr (if p = ''length'' then JNum (show_nat (length xs)) else JUndefined)"
| "get_prop (JStr s) p = Inr (if p = ''length'' then JNum (show_nat (length s)) else JUndefined)"
| "get_prop v p = Inr JUndefined"

subsection \<open>Strings\<close>

text \<open>\<open>s.includes(t)\<close>: \<open>t\<close> occurs in \<open>s\<close> as a contiguous substring.\<close>

fun starts_with :: "string \<Rightarrow> string \<Rightarrow> bool" where
  "starts_with s [] = True"
| "starts_with [] (c # t) = False"
| "starts_with (d # s) (c # t) = (d = c \<and> starts_with s t)"

fun str_includes :: "string \<Rightarrow> string \<Rightarrow> bool" where
  "str_includes [] t = starts_with [] t"
| "str_includes (d # s) t = (starts_with (d # s) t \<or> str_includes s t)"

text \<open>
  \<open>s.trim()\<close> removes white space and line terminators at both ends. Among the code
  units below 256 these are tab, line feed, vertical tab, form feed, carriage return,
  space and the no-break space U+00A0.
\<close>

definition is_space :: "char \<Rightarrow> bool" where
  "is_space c = (c \<in> {CHR 0x09, CHR 0x0A, CHR 0x0B, CHR 0x0C, CHR 0x0D, CHR 0x20, CHR 0xA0})"

definition trim :: "string \<Rightarrow> string" where
  "trim s = rev (dropWhile is_space (rev (dropWhile is_space s)))"

definition join :: "string \<Rightarrow> string list \<Rightarrow> string" where
  "join sep parts = (case parts of [] \<Rightarrow> [] | p # ps \<Rightarrow> p @ concat (map (\<lambda>q. sep @ q) ps))"

subsection \<open>JSON.stringify\<close>

definition hex_char :: "nat \<Rightarrow> char" where
  "hex_char d = (if d < 10 then digit_char d else char_of (of_char (CHR ''a'') + (d - 10)))"

text \<open>QuoteJSONString of ECMA-262 on 8-bit characters.\<close>

definition escape_char :: "char \<Rightarrow> string" where
  "escape_char c =
     (if c = dquote then [backslash, dquote]
      else if c = backslash then [backslash, backslash]
      else if c = CHR 0x08 then [backslash, CHR ''b'']
      else if c = CHR 0x0C then [backslash, CHR ''f'']
      else if c = CHR 0x0A then [backslash, CHR ''n'']
      else if c = CHR 0x0D then [backslash, CHR ''r'']
      else if c = CHR 0x09 then [backslash, CHR ''t'']
      else if (of_char c :: nat) < 32
        then [backslash, CHR ''u'', CHR ''0'', CHR ''0'',
              hex_char ((of_char c :: nat) div 16), hex_char ((of_char c :: nat) mod 16)]
      else [c])"

definition json_quote :: "string \<Rightarrow> string" where
  "json_quote s = [dquote] @ concat (map escape_char s) @ [dquote]"

text \<open>
  The brackets around the serialized members of an array or object: no white space
  when the gap is empty, one member per line indented by the gap otherwise.
\<close>

definition wrap :: "string \<Rightarrow> string \<Rightarrow> string \<Rightarrow> string \<Rightarrow> string list \<Rightarrow> string" where
  "wrap gap ind opening closing parts =
     (if parts = [] then opening @ closing
      else if gap = [] then opening @ join '','' parts @ closing
      else opening @ [newline] @ ind @ gap
           @ join ('','' @ [newline] @ ind @ gap) parts
           @ [newline] @ ind @ closing)"

text \<open>
  SerializeJSONProperty: \<open>None\<close> is the result \<open>undefined\<close>. An \<open>undefined\<close> array element
  is written \<open>null\<close>, an \<open>undefined\<close> property is left out, a number that is not finite
  is written \<open>null\<close>.
\<close>

fun ser :: "string \<Rightarrow> string \<Rightarrow> jsval \<Rightarrow> string option" where
  "ser gap ind JUndefined = None"
| "ser gap ind JNull = Some ''null''"
| "ser gap ind (JBool b) = Some (if b then ''true'' else ''false'')"
| "ser gap ind (JNum t) =
     Some (if t = ''Infinity'' \<or> t = ''-Infinity'' \<or> t = ''NaN'' then ''null'' else t)"
| "ser gap ind (JStr s) = Some (json_quote s)"
| "ser gap ind (JArr xs) =
     Some (wrap gap ind ''['' '']''
       (map (\<lambda>x. case ser gap (ind @ gap) x of None \<Rightarrow> ''null'' | Some t \<Rightarrow> t) xs))"
| "ser gap ind (JObj ps) =
     Some (wrap gap ind ''{'' ''}''
       (concat (map (\<lambda>kv. case ser gap (ind @ gap) (snd kv) of
                             None \<Rightarrow> []
                           | Some t \<Rightarrow> [json_quote (fst kv) @ '':'' @ (if gap = [] then [] else '' '') @ t])
                    ps)))"

text \<open>\<open>JSON.stringify(v)\<close> and \<open>JSON.stringify(v, null, 2)\<close>.\<close>

definition json_stringify :: "jsval \<Rightarrow> string option" where
  "json_stringify v = ser [] [] v"

definition json_stringify2 :: "jsval \<Rightarrow> string option" where
  "json_stringify2 v = ser ''  '' [] v"

text \<open>Interpolation \<open>${x}\<close> of a JSON.stringify result in a template literal.\<close>

definition interpolate :: "string option \<Rightarrow> string" where
  "interpolate r = (case r of None \<Rightarrow> ''undefined'' | Some t \<Rightarrow> t)"

text \<open>The first error of a list of outcomes, or all the values.\<close>

fun first_error :: "(js_error + 'a) list \<Rightarrow> js_error + 'a list" where
  "first_error [] = Inr []"
| "first_error (r # rs) =
     (case r of
        Inl e \<Rightarrow> Inl e
      | Inr v \<Rightarrow> (case first_error rs of Inl e \<Rightarrow> Inl e | Inr vs \<Rightarrow> Inr (v # vs)))"

text \<open>
  ToString, the conversion of \<open>${x}\<close> in a template literal. An array is the texts of its
  elements joined by commas (nothing for \<open>undefined\<close> and \<open>null\<close>). An object parsed from
  JSON is \<open>[object Object]\<close>, unless it has a property \<open>toString\<close> of its own: that one is
  not a function, and the conversion throws.
\<close>

fun to_string :: "jsval \<Rightarrow> js_error + string" where
  "to_string JUndefined = Inr ''undefined''"
| "to_string JNull = Inr ''null''"
| "to_string (JBool b) = Inr (if b then ''true'' else ''false'')"
| "to_string (JNum t) = Inr t"
| "to_string (JStr s) = Inr s"
| "to_string (JArr xs) =
     (case first_error (map (\<lambda>x. if x = JUndefined \<or> x = JNull then Inr [] else to_string x) xs) of
        Inl e \<Rightarrow> Inl e
      | Inr parts \<Rightarrow> Inr (join '','' parts))"
| "to_string (JObj ps) =
     (if ''toString'' \<in> fst ` set ps
      then Inl (TypeError ''Cannot convert object to primitive value'')
      else Inr ''[object Object]'')"

text \<open>
  \<open>Object.keys(x)\<close> throws on \<open>undefined\<close> and \<open>null\<close>; otherwise it lists the own
  enumerable property names.
\<close>

fun object_keys :: "jsval \<Rightarrow> js_error + string list" where
  "object_keys JUndefined = Inl (TypeError ''Cannot convert undefined or null to object'')"
| "object_keys JNull = Inl (TypeError ''Cannot convert undefined or null to object'')"
| "object_keys (JObj ps) = Inr (map fst ps)"
| "object_keys (JArr xs) = Inr (map show_nat [0..<length xs])"
| "object_keys (JStr s) = Inr (map show_nat [0..<length s])"
| "object_keys v = Inr []"

section \<open>Configuration, requests and responses\<close>

text \<open>
  \<open>getConfig\<close> runs once at startup and throws unless the three values are truthy, so
  in a running server each of them is a non-empty string.
\<close>

record config =
  graphqlUrl :: string
  accessToken :: string
  tenantId :: string

definition valid_config :: "config \<Rightarrow> bool" where
  "valid_config cfg = (graphqlUrl cfg \<noteq> [] \<and> accessToken cfg \<noteq> [] \<and> tenantId cfg \<noteq> [])"

text \<open>
  What \<open>attemptGraphQLRequest\<close> hands to \<open>fetch\<close>. The body on the wire is
  \<open>JSON.stringify({query, variables})\<close>; the record keeps the two values that are
  serialized.
\<close>

record request =
  req_url :: string
  req_method :: string
  req_headers :: "(string \<times> string) list"
  req_query :: string
  req_variables :: jsval

text \<open>
  The part of a fetch Response the code reads: \<open>status\<close>, \<open>ok\<close> (status 200 to 299),
  \<open>text()\<close> and \<open>json()\<close>. The outcome of \<open>json()\<close> is the parsed body, or the
  SyntaxError of a body that is not JSON.
\<close>

record response =
  resp_status :: nat
  resp_text :: string
  resp_json :: "js_error + jsval"

definition ok :: "response \<Rightarrow> bool" where
  "ok r = (200 \<le> resp_status r \<and> resp_status r \<le> 299)"

text \<open>
  The remote service and the network: what \<open>fetch\<close> gives for a request, after the
  requests sent before it. \<open>Inl\<close> is a rejected fetch (no response at all).
\<close>

type_synonym remote = "request list \<Rightarrow> request \<Rightarrow> js_error + response"

text \<open>
  An asynchronous function is a function of the requests sent so far that gives its
  outcome (\<open>Inl\<close>: the error thrown) and the requests sent when it settles.
\<close>

type_synonym 'a io = "request list \<Rightarrow> (js_error + 'a) \<times> request list"

definition return_io :: "'a \<Rightarrow> 'a io" where
  "return_io v log = (Inr v, log)"

definition throw_io :: "js_error \<Rightarrow> 'a io" where
  "throw_io e log = (Inl e, log)"

definition lift_io :: "js_error + 'a \<Rightarrow> 'a io" where
  "lift_io r log = (r, log)"

text \<open>Sequencing \<open>const x = await m; ...\<close>: an error thrown by \<open>m\<close> skips the rest.\<close>

definition bind_io :: "'a io \<Rightarrow> ('a \<Rightarrow> 'b io) \<Rightarrow> 'b io" where
  "bind_io m f log = (case m log of (Inl e, log') \<Rightarrow> (Inl e, log') | (Inr v, log') \<Rightarrow> f v log')"

text \<open>\<open>try { m } catch (error) { return h(error) }\<close>.\<close>

definition try_catch :: "'a io \<Rightarrow> (js_error \<Rightarrow> 'a io) \<Rightarrow> 'a io" where
  "try_catch m h log = (case m log of (Inl e, log') \<Rightarrow> h e log' | (Inr v, log') \<Rightarrow> (Inr v, log'))"

section \<open>The request executor\<close>

definition attemptGraphQLRequest ::
  "config \<Rightarrow> remote \<Rightarrow> string \<Rightarrow> jsval \<Rightarrow> (string \<times> string) list \<Rightarrow> response io" where
  "attemptGraphQLRequest cfg remote query variables headers log =
     (let req = \<lparr>req_url = graphqlUrl cfg, req_method = ''POST'', req_headers = headers,
                 req_query = query, req_variables = variables\<rparr>
      in (remote log req, log @ [req]))"

definition isSessionCookie :: "string \<Rightarrow> bool" where
  "isSessionCookie token =
     (str_includes token ''VelocitySession='' \<or> str_includes token ''SecurityApiSession='')"

definition cookie_headers :: "string \<Rightarrow> (string \<times> string) list" where
  "cookie_headers token =
     [(''Content-Type'', ''application/json''),
      (''Accept'', ''*/*''),
      (''User-Agent'', ''MCP-Velocity-Client/1.0.0''),
      (''Cookie'', token)]"

definition access_key_headers :: "string \<Rightarrow> (string \<times> string) list" where
  "access_key_headers token =
     [(''Content-Type'', ''application/json''),
      (''Accept'', ''*/*''),
      (''User-Agent'', ''MCP-Velocity-Client/1.0.0''),
      (''Authorization'', ''UserAccessKey '' @ token)]"

text \<open>A default parameter \<open>v = d\<close>: the default stands in for \<open>undefined\<close> only.\<close>

definition default_param :: "jsval \<Rightarrow> jsval \<Rightarrow> jsval" where
  "default_param v d = (if v = JUndefined then d else v)"

text \<open>
  \<open>executeGraphQL(query, variables = {})\<close>. The \<open>console.log\<close> lines are left out except
  \<open>Object.keys(data)\<close>, which throws when the body is the JSON value \<open>null\<close>. The
  \<open>catch\<close> of the function logs the error and throws it again, so it changes nothing.
\<close>

definition executeGraphQL :: "config \<Rightarrow> remote \<Rightarrow> string \<Rightarrow> jsval \<Rightarrow> jsval io" where
  "executeGraphQL cfg remote query variables0 =
     bind_io
       (let variables = default_param variables0 (JObj []) in
        if isSessionCookie (accessToken cfg)
        then attemptGraphQLRequest cfg remote query variables (cookie_headers (accessToken cfg))
        else attemptGraphQLRequest cfg remote query variables (access_key_headers (accessToken cfg)))
       (\<lambda>response.
          if \<not> ok response
          then throw_io (Error (''HTTP '' @ show_nat (resp_status response) @ '': '' @ resp_text response))
          else bind_io (lift_io (resp_json response))
            (\<lambda>data. bind_io (lift_io (object_keys data))
            (\<lambda>keys. bind_io (lift_io (get_prop data ''errors''))
            (\<lambda>errors.
               if truthy errors
               then throw_io (Error (''GraphQL errors: '' @ interpolate (json_stringify errors)))
               else lift_io (get_prop data ''data'')))))"

section \<open>Tool handlers\<close>

text \<open>
  A handler answers with \<open>{content: [{type: 'text', text: t}]}\<close>. The model of a handler
  is an \<open>io\<close> computation, so a handler that let an error escape would give \<open>Inl\<close>.
\<close>

datatype content_item = TextItem string

type_synonym tool_result = "content_item list"

definition text_result :: "string \<Rightarrow> tool_result" where
  "text_result t = [TextItem t]"

text \<open>
  The GraphQL documents are the template literals of the source, character for
  character: the lines of each literal, joined by line feeds (the first line is empty,
  the last one is the indentation before the closing backquote).
\<close>

definition GetReleaseEvents_doc :: string where
  "GetReleaseEvents_doc = join [newline]
       ['''',
        ''                query GetReleaseEvents($first: Int, $dateRange: dateRang'' @
         ''eInput, $status: ReleaseStatus, $state: ReleaseState) {'',
        ''                    releaseEventsSearch('',
        ''                        first: $first'',
        ''                        dateRange: $dateRange'',
        ''                        status: $status'',
        ''                        state: $state'',
        ''                    ) {'',
        ''                        nodes {'',
        ''                            _id'',
        ''                            name'',
        ''                            description'',
        ''                            start'',
        ''                            end'',
        ''                            status'',
        ''                            state'',
        ''                            team {'',
        ''                                id'',
        ''                                name'',
        ''                            }'',
        ''                            tags {'',
        ''                                _id'',
        ''                                name'',
        ''                            }'',
        ''                            planStats {'',
        ''                                planCount'',
        ''                                appCount'',
        ''                                teamCount'',
        ''                                taskCount'',
        ''                                completedTaskCount'',
        ''                            }'',
        ''                        }'',
        ''                        pageInfo {'',
        ''                            endCursor {'',
        ''                                key'',
        ''                                id'',
        ''                            }'',
        ''                        }'',
        ''                    }'',
        ''                }'',
        ''            '']"

definition AddReleaseEvent_doc :: string where
  "AddReleaseEvent_doc = join [newline]
       ['''',
        ''                mutation AddReleaseEvent('',
        ''                    $name: String!'',
        ''                    $team: teamInput!'',
        ''                    $start: Date!'',
        ''                    $end: Date!'',
        ''                    $description: String'',
        ''                    $tags: [ID]'',
        ''                    $isEvent: Boolean'',
        ''                    $summary: String'',
        ''                ) {'',
        ''                    addReleaseEvent('',
        ''                        name: $name'',
        ''                        team: $team'',
        ''                        start: $start'',
        ''                        end: $end'',
        ''                        description: $description'',
        ''                        tags: $tags'',
        ''                        isEvent: $isEvent'',
        ''                        summary: $summary'',
        ''                    ) {'',
        ''                        _id'',
        ''                        name'',
        ''                        description'',
        ''                        start'',
        ''                        end'',
        ''                        status'',
        ''                        team {'',
        ''                            id'',
        ''                            name'',
        ''                        }'',
        ''                    }'',
        ''                }'',
        ''            '']"

definition GetPipelinesByTenant_doc :: string where
  "GetPipelinesByTenant_doc = join [newline]
       ['''',
        ''                query GetPipelinesByTenant($tenantId: ID!) {'',
        ''                    pipelinesByTenantId(tenantId: $tenantId) {'',
        ''                        _id'',
        ''                        name'',
        ''                        description'',
        ''                        tenant_id'',
        ''                        synchronize'',
        ''                        team {'',
        ''                            id'',
        ''                            name'',
        ''                        }'',
        ''                        stages {'',
        ''                            _id'',
        ''                            name'',
        ''                            type'',
        ''                            description'',
        ''                        }'',
        ''                        applications {'',
        ''                            _id'',
        ''                            name'',
        ''                            type'',
        ''                            description'',
        ''                        }'',
        ''                        stats {'',
        ''                            leadTime'',
        ''                        }'',
        ''                        created'',
        ''                    }'',
        ''                }'',
        ''            '']"

definition ComposeNewPipeline_doc :: string where
  "ComposeNewPipeline_doc = join [newline]
       ['''',
        ''                mutation ComposeNewPipeline('',
        ''                    $pipelineId: ID'',
        ''                    $pipelineName: String!'',
        ''                    $pipelineDesc: String!'',
        ''                    $organizationId: ID!'',
        ''                    $team: TeamInput!'',
        ''                    $defaultEnvironments: Boolean'',
        ''                ) {'',
        ''                    composeNewPipeline('',
        ''                        pipelineId: $pipelineId'',
        ''                        pipelineName: $pipelineName'',
        ''                        pipelineDesc: $pipelineDesc'',
        ''                        organizationId: $organizationId'',
        ''                        team: $team'',
        ''                        defaultEnvironments: $defaultEnvironments'',
        ''                    ) {'',
        ''                        _id'',
        ''                        name'',
        ''                        description'',
        ''                        team {'',
        ''                            id'',
        ''                            name'',
        ''                        }'',
        ''                    }'',
        ''                }'',
        ''            '']"

definition GetWorkflowsForTenant_doc :: string where
  "GetWorkflowsForTenant_doc = join [newline]
       ['''',
        ''                query GetWorkflowsForTenant($tenantId: ID!) {'',
        ''                    workflowsForTenant(tenantId: $tenantId) {'',
        ''                        _id'',
        ''                        pipelineId'',
        ''                        name'',
        ''                        description'',
        ''                        query'',
        ''                        phases {'',
        ''                            name'',
        ''                            description'',
        ''                            stages {'',
        ''                                name'',
        ''                                description'',
        ''                                query'',
        ''                                wipLimit'',
        ''                                showAlerts'',
        ''                                showSpeed'',
        ''                            }'',
        ''                        }'',
        ''                        integrations'',
        ''                        integrationsCount'',
        ''                        leadTime {'',
        ''                            start'',
        ''                            end'',
        ''                            median'',
        ''                            firstQuartile'',
        ''                            thirdQuartile'',
        ''                        }'',
        ''                        cycleTime {'',
        ''                            start'',
        ''                            end'',
        ''                            median'',
        ''                            firstQuartile'',
        ''                            thirdQuartile'',
        ''                        }'',
        ''                        team {'',
        ''                            id'',
        ''                            name'',
        ''                        }'',
        ''                        created'',
        ''                        lastUpdate'',
        ''                    }'',
        ''                }'',
        ''            '']"

definition GetParticlesByStage_doc :: string where
  "GetParticlesByStage_doc = join [newline]
       ['''',
        ''                query GetParticlesByStage('',
        ''                    $workflowId: ID!'',
        ''                    $stageName: String!'',
        ''                    $particleIds: [ID]'',
        ''                    $pagination: InsightsPaginationInput'',
        ''                ) {'',
        ''                    particlesByStage('',
        ''                        workflowId: $workflowId'',
        ''                        stageName: $stageName'',
        ''                        particleIds: $particleIds'',
        ''                        pagination: $pagination'',
        ''                    ) {'',
        ''                        issue {'',
        ''                            _id'',
        ''                            id'',
        ''                            name'',
        ''                            status'',
        ''                            priority'',
        ''                            type'',
        ''                            owner'',
        ''                            creator'',
        ''                            created'',
        ''                            lastUpdate'',
        ''                            url'',
        ''                            description'',
        ''                            storyPoints'',
        ''                            labels'',
        ''                        }'',
        ''                        commit {'',
        ''                            _id'',
        ''                            id'',
        ''                            name'',
        ''                            url'',
        ''                            creator'',
        ''                            created'',
        ''                        }'',
        ''                        build {'',
        ''                            _id'',
        ''                            name'',
        ''                            status'',
        ''                            url'',
        ''                            startTime'',
        ''                            endTime'',
        ''                        }'',
        ''                        deploy {'',
        ''                            _id'',
        ''                            name'',
        ''                            status'',
        ''                            url'',
        ''                            startTime'',
        ''                            endTime'',
        ''                            environmentId'',
        ''                        }'',
        ''                        particleId'',
        ''                    }'',
        ''                }'',
        ''            '']"

definition GetIssues_doc :: string where
  "GetIssues_doc = join [newline]
       ['''',
        ''                query GetIssues($filter: IssuesFilter) {'',
        ''                    issues(filter: $filter) {'',
        ''                        _id'',
        ''                        type'',
        ''                        trackerId'',
        ''                        tenantId'',
        ''                        issue {'',
        ''                            _id'',
        ''                            id'',
        ''                            name'',
        ''                            description'',
        ''                            status'',
        ''                            url'',
        ''                            creator'',
        ''                            owner'',
        ''                            created'',
        ''                            lastUpdate'',
        ''                            type'',
        ''                            normalizedType'',
        ''                            priority'',
        ''                            storyPoints'',
        ''                            labels'',
        ''                            sprints {'',
        ''                                id'',
        ''                                name'',
        ''                                active'',
        ''                                startTime'',
        ''                                endTime'',
        ''                            }'',
        ''                            releases {'',
        ''                                id'',
        ''                                name'',
        ''                                releaseDate'',
        ''                                released'',
        ''                            }'',
        ''                            project {'',
        ''                                id'',
        ''                                key'',
        ''                                name'',
        ''                            }'',
        ''                        }'',
        ''                    }'',
        ''                }'',
        ''            '']"

definition UploadIssueData_doc :: string where
  "UploadIssueData_doc = join [newline]
       ['''',
        ''                mutation UploadIssueData($data: IssueDataIn!) {'',
        ''                    uploadIssueData(data: $data) {'',
        ''                        result'',
        ''                        issueIds'',
        ''                    }'',
        ''                }'',
        ''            '']"

definition GetDeployments_doc :: string where
  "GetDeployments_doc = join [newline]
       ['''',
        ''                query GetDeployments($query: DeploymentQuery) {'',
        ''                    deployments(query: $query) {'',
        ''                        items {'',
        ''                            _id'',
        ''                            id_external'',
        ''                            name'',
        ''                            description'',
        ''                            tags'',
        ''                            teams {'',
        ''                                name'',
        ''                                _id'',
        ''                            }'',
        ''                            version_name'',
        ''                            application {'',
        ''                                id'',
        ''                                name'',
        ''                                external_id'',
        ''                            }'',
        ''                            type'',
        ''                            result'',
        ''                            start_time'',
        ''                            end_time'',
        ''                            duration_mins'',
        ''                            environment_name'',
        ''                            by_user'',
        ''                            url'',
        ''                            deploymentType'',
        ''                        }'',
        ''                        count'',
        ''                    }'',
        ''                }'',
        ''            '']"

definition GetBuilds_doc :: string where
  "GetBuilds_doc = join [newline]
       ['''',
        ''                query GetBuilds($query: BuildTableQuery) {'',
        ''                    builds(query: $query) {'',
        ''                        items {'',
        ''                            _id'',
        ''                            id'',
        ''                            name'',
        ''                            status'',
        ''                            url'',
        ''                            startTime'',
        ''                            endTime'',
        ''                            requestor'',
        ''                            revision'',
        ''                            number'',
        ''                            labels'',
        ''                            source'',
        ''                            branch'',
        ''                            application {'',
        ''                                id'',
        ''                                externalId'',
        ''                                name'',
        ''                            }'',
        ''                            parameters {'',
        ''                                name'',
        ''                                value'',
        ''                                source'',
        ''                            }'',
        ''                        }'',
        ''                        count'',
        ''                    }'',
        ''                }'',
        ''            '']"

definition GetTeamsByTenant_doc :: string where
  "GetTeamsByTenant_doc = join [newline]
       ['''',
        ''                query GetTeamsByTenant($tenantId: ID!, $roleIds: [String'' @
         '']) {'',
        ''                    teamsByTenantId(tenantId: $tenantId, roleIds: $roleI'' @
         ''ds) {'',
        ''                        _id'',
        ''                        tenantId'',
        ''                        name'',
        ''                    }'',
        ''                }'',
        ''            '']"

definition AddNewTeam_doc :: string where
  "AddNewTeam_doc = join [newline]
       ['''',
        ''                mutation AddNewTeam($name: String!, $tenantId: ID!) {'',
        ''                    addNewTeam(name: $name, tenantId: $tenantId) {'',
        ''                        _id'',
        ''                        name'',
        ''                        tenantId'',
        ''                        origin'',
        ''                    }'',
        ''                }'',
        ''            '']"

definition GetApplicationsByCriteria_doc :: string where
  "GetApplicationsByCriteria_doc = join [newline]
       ['''',
        ''                query GetApplicationsByCriteria($data: AppCriteriaIn!) {'',
        ''                    applicationsByCriteria(data: $data) {'',
        ''                        totalCount'',
        ''                        apps {'',
        ''                            _id'',
        ''                            external_id'',
        ''                            tenant_id'',
        ''                            integration_id'',
        ''                            name'',
        ''                            alphaNumericName'',
        ''                            active'',
        ''                            createdAdHoc'',
        ''                            type'',
        ''                            version'',
        ''                            level'',
        ''                        }'',
        ''                    }'',
        ''                }'',
        ''            '']"

definition GetIntegrationsByTenant_doc :: string where
  "GetIntegrationsByTenant_doc = join [newline]
       ['''',
        ''                query GetIntegrationsByTenant($tenantId: ID!) {'',
        ''                    integrationsByTenantId(tenantId: $tenantId) {'',
        ''                        _id'',
        ''                        type'',
        ''                        tenant_id'',
        ''                        name'',
        ''                        loggingLevel'',
        ''                        displayName'',
        ''                        showHidden'',
        ''                        last_run_successful'',
        ''                        last_run_completion_time'',
        ''                        last_successful_execution_time'',
        ''                        disabled'',
        ''                        status'',
        ''                        upgradeAvailable'',
        ''                        image'',
        ''                        properties'',
        ''                        startTime'',
        ''                        pluginId'',
        ''                        plugin {'',
        ''                            _id'',
        ''                            pluginId'',
        ''                            displayName'',
        ''                            description'',
        ''                            image'',
        ''                            version'',
        ''                        }'',
        ''                    }'',
        ''                }'',
        ''            '']"

definition TestConnection_doc :: string where
  "TestConnection_doc = join [newline]
       ['''',
        ''                query TestConnection {'',
        ''                    __schema {'',
        ''                        types {'',
        ''                            name'',
        ''                        }'',
        ''                    }'',
        ''                }'',
        ''            '']"

definition AddManualVersionSignOffRule_doc :: string where
  "AddManualVersionSignOffRule_doc = join [newline]
       ['''',
        ''                    mutation AddManualVersionSignOffRule($input: ManualV'' @
         ''ersionSignOffIn!) {'',
        ''                        addManualVersionSignOffRule(input: $input) { _id'' @
         '' name pipelineId approvers { _id name type } }'',
        ''                    }'',
        ''                '']"

definition AddAutomatedMetricRule_doc :: string where
  "AddAutomatedMetricRule_doc = join [newline]
       ['''',
        ''                    mutation AddAutomatedMetricRule($input: AutomatedMet'' @
         ''ricCriterionIn!) {'',
        ''                        addAutomatedMetricRule(input: $input) { _id name'' @
         '' pipelineId }'',
        ''                    }'',
        ''                '']"

definition AddComplianceRule_doc :: string where
  "AddComplianceRule_doc = join [newline]
       ['''',
        ''                    mutation AddComplianceRule($input: ComplianceRuleIn!'' @
         '') {'',
        ''                        addComplianceRule(input: $input) { _id name pipe'' @
         ''lineId }'',
        ''                    }'',
        ''                '']"

definition AddStatusRule_doc :: string where
  "AddStatusRule_doc = join [newline]
       ['''',
        ''                    mutation AddStatusRule($input: StatusRuleIn!) {'',
        ''                        addStatusRule(input: $input) { _id name pipeline'' @
         ''Id }'',
        ''                    }'',
        ''                '']"

definition UpsertPipelineGate_doc :: string where
  "UpsertPipelineGate_doc = join [newline]
       ['''',
        ''                mutation UpsertPipelineGate($pipelineId: ID!, $stageId: '' @
         ''ID!, $ruleIds: [ID!]!, $manualGateNotification: Boolean!) {'',
        ''                    upsertPipelineGate(pipelineId: $pipelineId, stageId:'' @
         '' $stageId, ruleIds: $ruleIds, manualGateNotification: $manualGateNotific'' @
         ''ation) {'',
        ''                        _id pipelineId stageId rules { ruleType { ... on'' @
         '' ManualVersionSignOff { _id name } ... on AutomatedMetricCriterion { _id'' @
         '' name } ... on ComplianceRule { _id name } ... on StatusRule { _id name '' @
         ''} } } manualGateNotification'',
        ''                    }'',
        ''                }'',
        ''            '']"

definition MyAccessKeyMetaData_doc :: string where
  "MyAccessKeyMetaData_doc = join [newline]
       ['''',
        ''                query MyAccessKeyMetaData {'',
        ''                    myAccessKeyMetaData {'',
        ''                        userId'',
        ''                        email'',
        ''                        id'',
        ''                        name'',
        ''                        created'',
        ''                        lastUsed'',
        ''                    }'',
        ''                }'',
        ''            '']"

definition AddApplicationStages_doc :: string where
  "AddApplicationStages_doc = join [newline]
       ['''',
        ''                mutation AddApplicationStages($pipelineId: ID!, $stageId'' @
         '': String!, $environments: [EnvInput]!) {'',
        ''                    addApplicationStages(pipelineId: $pipelineId, stageI'' @
         ''d: $stageId, environments: $environments) {'',
        ''                        _id'',
        ''                        name'',
        ''                        description'',
        ''                        # Add more fields as needed from PipelineApplica'' @
         ''tionStage'',
        ''                    }'',
        ''                }'',
        ''            '']"

definition AddStage_doc :: string where
  "AddStage_doc = join [newline]
       ['''',
        ''                mutation AddStage($pipelineId: ID!, $stage: StageInput!)'' @
         '' {'',
        ''                    addStage(pipelineId: $pipelineId, stage: $stage) {'',
        ''                        _id'',
        ''                        name'',
        ''                        description'',
        ''                        # Add more fields as needed'',
        ''                    }'',
        ''                }'',
        ''            '']"

definition UpdateStage_doc :: string where
  "UpdateStage_doc = join [newline]
       ['''',
        ''                mutation UpdateStage($pipelineId: ID!, $stageId: String!'' @
         '', $updates: UpdateStageInput!) {'',
        ''                    updateStage(pipelineId: $pipelineId, stageId: $stage'' @
         ''Id, updates: $updates) {'',
        ''                        _id'',
        ''                        name'',
        ''                        description'',
        ''                        # Add more fields as needed'',
        ''                    }'',
        ''                }'',
        ''            '']"

definition DeleteStage_doc :: string where
  "DeleteStage_doc = join [newline]
       ['''',
        ''                mutation DeleteStage($pipelineId: ID!, $stageId: String!'' @
         '') {'',
        ''                    deleteStage(pipelineId: $pipelineId, stageId: $stage'' @
         ''Id) {'',
        ''                        success'',
        ''                        message'',
        ''                    }'',
        ''                }'',
        ''            '']"

definition UpdateWorkflow_doc :: string where
  "UpdateWorkflow_doc = join [newline]
       ['''',
        ''                mutation UpdateWorkflow($workflowId: ID!, $updates: Work'' @
         ''flowQuery!) {'',
        ''                    updateWorkflow(workflowId: $workflowId, updates: $up'' @
         ''dates) {'',
        ''                        _id'',
        ''                        name'',
        ''                        description'',
        ''                        # Add more fields as needed'',
        ''                    }'',
        ''                }'',
        ''            '']"

subsection \<open>Simple tools\<close>

text \<open>\<open>(skip !== undefined || limit !== undefined) ? { skip, limit } : undefined\<close>.\<close>

definition pagination :: "jsval \<Rightarrow> jsval \<Rightarrow> jsval" where
  "pagination skip limit =
     (if skip \<noteq> JUndefined \<or> limit \<noteq> JUndefined
      then JObj [(''skip'', skip), (''limit'', limit)] else JUndefined)"

text \<open>\<open>typeof v === 'boolean' ? v : null\<close>.\<close>

fun boolean_or_null :: "jsval \<Rightarrow> jsval" where
  "boolean_or_null (JBool b) = JBool b"
| "boolean_or_null v = JNull"

text \<open>
  \<open>issues.map(issue => ({...issue, normalizedType: "OTHER"}))\<close> in
  \<open>upload_issue_data\<close>. The spread copies the own enumerable properties of the issue
  (the indexed elements of an array or a string, none of any other value that is not an
  object); \<open>normalizedType\<close> then replaces the property of that name where it stands, or
  comes last. A value without callable \<open>map\<close> throws.
\<close>

fun own_properties :: "jsval \<Rightarrow> (string \<times> jsval) list" where
  "own_properties (JObj ps) = ps"
| "own_properties (JArr xs) = zip (map show_nat [0..<length xs]) xs"
| "own_properties (JStr s) = zip (map show_nat [0..<length s]) (map (\<lambda>c. JStr [c]) s)"
| "own_properties v = []"

definition define_property :: "(string \<times> jsval) list \<Rightarrow> string \<Rightarrow> jsval \<Rightarrow> (string \<times> jsval) list" where
  "define_property ps k v =
     (if k \<in> fst ` set ps then map (\<lambda>kv. if fst kv = k then (k, v) else kv) ps
      else ps @ [(k, v)])"

fun normalized_issues :: "jsval \<Rightarrow> js_error + jsval" where
  "normalized_issues (JArr xs) =
     Inr (JArr (map (\<lambda>issue. JObj (define_property (own_properties issue)
                                        ''normalizedType'' (JStr ''OTHER''))) xs))"
| "normalized_issues JUndefined =
     Inl (TypeError (''Cannot read properties of undefined (reading '' @ [squote] @ ''map'' @ [squote] @ '')''))"
| "normalized_issues JNull =
     Inl (TypeError (''Cannot read properties of null (reading '' @ [squote] @ ''map'' @ [squote] @ '')''))"
| "normalized_issues v = Inl (TypeError ''issues.map is not a function'')"

text \<open>
  \<open>${result.__schema.types.length}\<close> in \<open>test_graphql_connection\<close>: three property reads,
  then the conversion of the value to a string.
\<close>

definition schema_types_length :: "jsval \<Rightarrow> js_error + string" where
  "schema_types_length result =
     (case get_prop result ''__schema'' of
        Inl e \<Rightarrow> Inl e
      | Inr schema \<Rightarrow>
          (case get_prop schema ''types'' of
             Inl e \<Rightarrow> Inl e
           | Inr types \<Rightarrow>
               (case get_prop types ''length'' of
                  Inl e \<Rightarrow> Inl e
                | Inr count \<Rightarrow> to_string count)))"

definition get_release_events ::
  "config \<Rightarrow> remote \<Rightarrow> jsval \<Rightarrow> jsval \<Rightarrow> jsval \<Rightarrow> jsval \<Rightarrow> tool_result io" where
  "get_release_events cfg remote first dateRange status state =
     try_catch
       (bind_io
          (executeGraphQL cfg remote GetReleaseEvents_doc
             (JObj [(''first'', first),
                    (''dateRange'', dateRange),
                    (''status'', status),
                    (''state'', state)]))
          (\<lambda>result. bind_io (lift_io (get_prop result ''releaseEventsSearch''))
          (\<lambda>found. return_io (text_result
             (''Release events retrieved: '' @ interpolate (json_stringify2 found))))))
       (\<lambda>error. return_io (text_result (''Error retrieving release events: '' @ message error)))"

definition create_release_event ::
  "config \<Rightarrow> remote \<Rightarrow> jsval \<Rightarrow> jsval \<Rightarrow> jsval \<Rightarrow> jsval \<Rightarrow> jsval \<Rightarrow> jsval \<Rightarrow> jsval \<Rightarrow> jsval \<Rightarrow> jsval \<Rightarrow> tool_result io" where
  "create_release_event cfg remote name teamId teamName start end' description tags isEvent summary =
     try_catch
       (bind_io
          (executeGraphQL cfg remote AddReleaseEvent_doc
             (JObj [(''name'', name),
                    (''team'', JObj [(''id'', teamId), (''name'', teamName), (''tenantId'', JStr (tenantId cfg))]),
                    (''start'', start),
                    (''end'', end'),
                    (''description'', description),
                    (''tags'', tags),
                    (''isEvent'', isEvent),
                    (''summary'', summary)]))
          (\<lambda>result. bind_io (lift_io (get_prop result ''addReleaseEvent''))
          (\<lambda>found. return_io (text_result
             (''Release event created: '' @ interpolate (json_stringify2 found))))))
       (\<lambda>error. return_io (text_result (''Error creating release event: '' @ message error)))"

definition get_pipelines_by_tenant :: "config \<Rightarrow> remote \<Rightarrow> jsval \<Rightarrow> tool_result io" where
  "get_pipelines_by_tenant cfg remote providedTenantId =
     try_catch
       (bind_io
          (executeGraphQL cfg remote GetPipelinesByTenant_doc
             (JObj [(''tenantId'', js_or providedTenantId (JStr (tenantId cfg)))]))
          (\<lambda>result. bind_io (lift_io (get_prop result ''pipelinesByTenantId''))
          (\<lambda>found. return_io (text_result
             (''Pipelines retrieved: '' @ interpolate (json_stringify2 found))))))
       (\<lambda>error. return_io (text_result (''Error retrieving pipelines: '' @ message error)))"

definition create_pipeline ::
  "config \<Rightarrow> remote \<Rightarrow> jsval \<Rightarrow> jsval \<Rightarrow> jsval \<Rightarrow> jsval \<Rightarrow> jsval \<Rightarrow> tool_result io" where
  "create_pipeline cfg remote pipelineName pipelineDesc teamId teamName defaultEnvironments =
     try_catch
       (bind_io
          (executeGraphQL cfg remote ComposeNewPipeline_doc
             (JObj [(''pipelineId'', JNull),
                    (''pipelineName'', pipelineName),
                    (''pipelineDesc'', js_or pipelineDesc (JStr [])),
                    (''organizationId'', JStr (tenantId cfg)),
                    (''team'', JObj [(''id'', teamId), (''name'', teamName)]),
                    (''defaultEnvironments'', boolean_or_null defaultEnvironments)]))
          (\<lambda>result. bind_io (lift_io (get_prop result ''composeNewPipeline''))
          (\<lambda>found. return_io (text_result
             (''Pipeline created: '' @ interpolate (json_stringify2 found))))))
       (\<lambda>error. return_io (text_result (''Error creating pipeline: '' @ message error)))"

definition get_workflows_for_tenant :: "config \<Rightarrow> remote \<Rightarrow> jsval \<Rightarrow> tool_result io" where
  "get_workflows_for_tenant cfg remote providedTenantId =
     try_catch
       (bind_io
          (executeGraphQL cfg remote GetWorkflowsForTenant_doc
             (JObj [(''tenantId'', js_or providedTenantId (JStr (tenantId cfg)))]))
          (\<lambda>result. bind_io (lift_io (get_prop result ''workflowsForTenant''))
          (\<lambda>found. return_io (text_result
             (''Workflows retrieved: '' @ interpolate (json_stringify2 found))))))
       (\<lambda>error. return_io (text_result (''Error retrieving workflows: '' @ message error)))"

definition get_particles_by_stage ::
  "config \<Rightarrow> remote \<Rightarrow> jsval \<Rightarrow> jsval \<Rightarrow> jsval \<Rightarrow> jsval \<Rightarrow> jsval \<Rightarrow> tool_result io" where
  "get_particles_by_stage cfg remote workflowId stageName particleIds skip limit =
     try_catch
       (bind_io
          (executeGraphQL cfg remote GetParticlesByStage_doc
             (JObj [(''workflowId'', workflowId),
                    (''stageName'', stageName),
                    (''particleIds'', particleIds),
                    (''pagination'', pagination skip limit)]))
          (\<lambda>result. bind_io (lift_io (get_prop result ''particlesByStage''))
          (\<lambda>found. return_io (text_result
             (''Particles retrieved: '' @ interpolate (json_stringify2 found))))))
       (\<lambda>error. return_io (text_result (''Error retrieving particles: '' @ message error)))"

definition get_issues ::
  "config \<Rightarrow> remote \<Rightarrow> jsval \<Rightarrow> jsval \<Rightarrow> jsval \<Rightarrow> jsval \<Rightarrow> tool_result io" where
  "get_issues cfg remote providedTenantId internalIds skip limit =
     try_catch
       (bind_io
          (executeGraphQL cfg remote GetIssues_doc
             (JObj [(''filter'', JObj
                [(''tenantId'', js_or providedTenantId (JStr (tenantId cfg))),
                 (''internalIds'', internalIds),
                 (''skip'', js_or skip (JNum ''0'')),
                 (''limit'', js_or limit (JNum ''100''))])]))
          (\<lambda>result. bind_io (lift_io (get_prop result ''issues''))
          (\<lambda>found. return_io (text_result
             (''Issues retrieved: '' @ interpolate (json_stringify2 found))))))
       (\<lambda>error. return_io (text_result (''Error retrieving issues: '' @ message error)))"

definition upload_issue_data ::
  "config \<Rightarrow> remote \<Rightarrow> jsval \<Rightarrow> jsval \<Rightarrow> jsval \<Rightarrow> jsval \<Rightarrow> tool_result io" where
  "upload_issue_data cfg remote source trackerId baseUrl issues =
     try_catch
       (bind_io (lift_io (normalized_issues issues))
          (\<lambda>normalized. bind_io
             (executeGraphQL cfg remote UploadIssueData_doc
                (JObj [(''data'', JObj
                   [(''source'', source),
                    (''trackerId'', trackerId),
                    (''tenantId'', JStr (tenantId cfg)),
                    (''baseUrl'', baseUrl),
                    (''issues'', normalized)])]))
          (\<lambda>result. bind_io (lift_io (get_prop result ''uploadIssueData''))
          (\<lambda>found. return_io (text_result
             (''Issue data uploaded: '' @ interpolate (json_stringify2 found)))))))
       (\<lambda>error. return_io (text_result (''Error uploading issue data: '' @ message error)))"

definition get_deployment_metrics ::
  "config \<Rightarrow> remote \<Rightarrow> jsval \<Rightarrow> jsval \<Rightarrow> jsval \<Rightarrow> jsval \<Rightarrow> jsval \<Rightarrow> jsval \<Rightarrow> jsval \<Rightarrow> jsval \<Rightarrow> tool_result io" where
  "get_deployment_metrics cfg remote teamIds appIds relativeTime customStartDate customEndDate queryString skip limit =
     try_catch
       (bind_io
          (executeGraphQL cfg remote GetDeployments_doc
             (JObj [(''query'', JObj
                [(''tenantId'', JStr (tenantId cfg)),
                 (''teamIds'', teamIds),
                 (''appIds'', appIds),
                 (''relativeTime'', relativeTime),
                 (''customStartDate'', customStartDate),
                 (''customEndDate'', customEndDate),
                 (''queryString'', queryString),
                 (''pagination'', pagination skip limit)])]))
          (\<lambda>result. bind_io (lift_io (get_prop result ''deployments''))
          (\<lambda>found. return_io (text_result
             (''Deployment metrics retrieved: '' @ interpolate (json_stringify2 found))))))
       (\<lambda>error. return_io (text_result (''Error retrieving deployment metrics: '' @ message error)))"

definition get_build_data ::
  "config \<Rightarrow> remote \<Rightarrow> jsval \<Rightarrow> jsval \<Rightarrow> jsval \<Rightarrow> jsval \<Rightarrow> jsval \<Rightarrow> jsval \<Rightarrow> jsval \<Rightarrow> jsval \<Rightarrow> jsval \<Rightarrow> tool_result io" where
  "get_build_data cfg remote teamIds appIds relativeTime customStartDate customEndDate source status skip limit =
     try_catch
       (bind_io
          (executeGraphQL cfg remote GetBuilds_doc
             (JObj [(''query'', JObj
                [(''filters'', JObj
                   [(''tenantId'', JStr (tenantId cfg)),
                    (''teamIds'', teamIds),
                    (''appIds'', appIds),
                    (''relativeTime'', relativeTime),
                    (''customStartDate'', customStartDate),
                    (''customEndDate'', customEndDate),
                    (''source'', source),
                    (''status'', status)]),
                 (''pagination'', pagination skip limit)])]))
          (\<lambda>result. bind_io (lift_io (get_prop result ''builds''))
          (\<lambda>found. return_io (text_result
             (''Build data retrieved: '' @ interpolate (json_stringify2 found))))))
       (\<lambda>error. return_io (text_result (''Error retrieving build data: '' @ message error)))"

definition get_teams_by_tenant :: "config \<Rightarrow> remote \<Rightarrow> jsval \<Rightarrow> jsval \<Rightarrow> tool_result io" where
  "get_teams_by_tenant cfg remote providedTenantId roleIds =
     try_catch
       (bind_io
          (executeGraphQL cfg remote GetTeamsByTenant_doc
             (JObj [(''tenantId'', js_or providedTenantId (JStr (tenantId cfg))),
                    (''roleIds'', roleIds)]))
          (\<lambda>result. bind_io (lift_io (get_prop result ''teamsByTenantId''))
          (\<lambda>found. return_io (text_result
             (''Teams retrieved: '' @ interpolate (json_stringify2 found))))))
       (\<lambda>error. return_io (text_result (''Error retrieving teams: '' @ message error)))"

definition create_team :: "config \<Rightarrow> remote \<Rightarrow> jsval \<Rightarrow> jsval \<Rightarrow> tool_result io" where
  "create_team cfg remote name providedTenantId =
     try_catch
       (bind_io
          (executeGraphQL cfg remote AddNewTeam_doc
             (JObj [(''name'', name),
                    (''tenantId'', js_or providedTenantId (JStr (tenantId cfg)))]))
          (\<lambda>result. bind_io (lift_io (get_prop result ''addNewTeam''))
          (\<lambda>found. return_io (text_result
             (''Team created: '' @ interpolate (json_stringify2 found))))))
       (\<lambda>error. return_io (text_result (''Error creating team: '' @ message error)))"

definition get_applications_by_criteria ::
  "config \<Rightarrow> remote \<Rightarrow> jsval \<Rightarrow> jsval \<Rightarrow> jsval \<Rightarrow> jsval \<Rightarrow> jsval \<Rightarrow> jsval \<Rightarrow> jsval \<Rightarrow> jsval \<Rightarrow> tool_result io" where
  "get_applications_by_criteria cfg remote parentsOnly types integrationId name fuzzyName tags limit offset =
     try_catch
       (bind_io
          (executeGraphQL cfg remote GetApplicationsByCriteria_doc
             (JObj [(''data'', JObj
                [(''tenantId'', JStr (tenantId cfg)),
                 (''parentsOnly'', parentsOnly),
                 (''types'', types),
                 (''integrationId'', integrationId),
                 (''name'', name),
                 (''fuzzyName'', fuzzyName),
                 (''tags'', tags),
                 (''limit'', limit),
                 (''offset'', offset)])]))
          (\<lambda>result. bind_io (lift_io (get_prop result ''applicationsByCriteria''))
          (\<lambda>found. return_io (text_result
             (''Applications retrieved: '' @ interpolate (json_stringify2 found))))))
       (\<lambda>error. return_io (text_result (''Error retrieving applications: '' @ message error)))"

definition get_integrations_by_tenant :: "config \<Rightarrow> remote \<Rightarrow> jsval \<Rightarrow> tool_result io" where
  "get_integrations_by_tenant cfg remote providedTenantId =
     try_catch
       (bind_io
          (executeGraphQL cfg remote GetIntegrationsByTenant_doc
             (JObj [(''tenantId'', js_or providedTenantId (JStr (tenantId cfg)))]))
          (\<lambda>result. bind_io (lift_io (get_prop result ''integrationsByTenantId''))
          (\<lambda>found. return_io (text_result
             (''Integrations retrieved: '' @ interpolate (json_stringify2 found))))))
       (\<lambda>error. return_io (text_result (''Error retrieving integrations: '' @ message error)))"

definition test_graphql_connection :: "config \<Rightarrow> remote \<Rightarrow> tool_result io" where
  "test_graphql_connection cfg remote =
     try_catch
       (bind_io (executeGraphQL cfg remote TestConnection_doc (JObj []))
          (\<lambda>result. bind_io (lift_io (schema_types_length result))
          (\<lambda>count. return_io (text_result
             (''GraphQL connection test successful: Found '' @ count @ '' schema types'')))))
       (\<lambda>error. return_io (text_result (''GraphQL connection test failed: '' @ message error)))"

definition get_my_access_key_metadata :: "config \<Rightarrow> remote \<Rightarrow> tool_result io" where
  "get_my_access_key_metadata cfg remote =
     try_catch
       (bind_io
          (executeGraphQL cfg remote MyAccessKeyMetaData_doc
             (JObj []))
          (\<lambda>result. bind_io (lift_io (get_prop result ''myAccessKeyMetaData''))
          (\<lambda>found. return_io (text_result
             (''Access key metadata: '' @ interpolate (json_stringify2 found))))))
       (\<lambda>error. return_io (text_result (''Error retrieving access key metadata: '' @ message error)))"

definition add_application_stages ::
  "config \<Rightarrow> remote \<Rightarrow> jsval \<Rightarrow> jsval \<Rightarrow> jsval \<Rightarrow> tool_result io" where
  "add_application_stages cfg remote pipeline_id stage_id environments =
     try_catch
       (bind_io
          (executeGraphQL cfg remote AddApplicationStages_doc
             (JObj [(''pipelineId'', pipeline_id),
                    (''stageId'', stage_id),
                    (''environments'', environments)]))
          (\<lambda>result. bind_io (lift_io (get_prop result ''addApplicationStages''))
          (\<lambda>found. return_io (text_result
             (''Application stages added: '' @ interpolate (json_stringify2 found))))))
       (\<lambda>error. return_io (text_result (''Error adding application stages: '' @ message error)))"

definition add_stage :: "config \<Rightarrow> remote \<Rightarrow> jsval \<Rightarrow> jsval \<Rightarrow> tool_result io" where
  "add_stage cfg remote pipeline_id stage =
     try_catch
       (bind_io
          (executeGraphQL cfg remote AddStage_doc
             (JObj [(''pipelineId'', pipeline_id),
                    (''stage'', stage)]))
          (\<lambda>result. bind_io (lift_io (get_prop result ''addStage''))
          (\<lambda>found. return_io (text_result
             (''Stage added: '' @ interpolate (json_stringify2 found))))))
       (\<lambda>error. return_io (text_result (''Error adding stage: '' @ message error)))"

definition update_stage ::
  "config \<Rightarrow> remote \<Rightarrow> jsval \<Rightarrow> jsval \<Rightarrow> jsval \<Rightarrow> tool_result io" where
  "update_stage cfg remote pipeline_id stage_id updates =
     try_catch
       (bind_io
          (executeGraphQL cfg remote UpdateStage_doc
             (JObj [(''pipelineId'', pipeline_id),
                    (''stageId'', stage_id),
                    (''updates'', updates)]))
          (\<lambda>result. bind_io (lift_io (get_prop result ''updateStage''))
          (\<lambda>found. return_io (text_result
             (''Stage updated: '' @ interpolate (json_stringify2 found))))))
       (\<lambda>error. return_io (text_result (''Error updating stage: '' @ message error)))"

definition delete_stage :: "config \<Rightarrow> remote \<Rightarrow> jsval \<Rightarrow> jsval \<Rightarrow> tool_result io" where
  "delete_stage cfg remote pipeline_id stage_id =
     try_catch
       (bind_io
          (executeGraphQL cfg remote DeleteStage_doc
             (JObj [(''pipelineId'', pipeline_id),
                    (''stageId'', stage_id)]))
          (\<lambda>result. bind_io (lift_io (get_prop result ''deleteStage''))
          (\<lambda>found. return_io (text_result
             (''Stage deleted: '' @ interpolate (json_stringify2 found))))))
       (\<lambda>error. return_io (text_result (''Error deleting stage: '' @ message error)))"

definition update_workflow :: "config \<Rightarrow> remote \<Rightarrow> jsval \<Rightarrow> jsval \<Rightarrow> tool_result io" where
  "update_workflow cfg remote workflowId updates =
     try_catch
       (bind_io
          (executeGraphQL cfg remote UpdateWorkflow_doc
             (JObj [(''workflowId'', workflowId),
                    (''updates'', updates)]))
          (\<lambda>result. bind_io (lift_io (get_prop result ''updateWorkflow''))
          (\<lambda>found. return_io (text_result
             (''Workflow updated: '' @ interpolate (json_stringify2 found))))))
       (\<lambda>error. return_io (text_result (''Error updating workflow: '' @ message error)))"

subsection \<open>The gate provisioner: \<open>add_pipeline_gate\<close>\<close>

text \<open>The destructured argument object of the handler.\<close>

record gate_args =
  pipelineId :: jsval
  stageId :: jsval
  gateType :: jsval
  gateName :: jsval
  manualApprovers :: jsval
  metricRule :: jsval
  complianceRule :: jsval
  statusRule :: jsval
  manualGateNotification :: jsval

text \<open>\<open>typeof v !== "string" || v.trim() === ""\<close>.\<close>

fun not_string_or_blank :: "jsval \<Rightarrow> bool" where
  "not_string_or_blank (JStr s) = (trim s = [])"
| "not_string_or_blank v = True"

text \<open>\<open>!Array.isArray(v) || v.length === 0\<close>.\<close>

fun not_array_or_empty :: "jsval \<Rightarrow> bool" where
  "not_array_or_empty (JArr xs) = (xs = [])"
| "not_array_or_empty v = True"

fun array_elements :: "jsval \<Rightarrow> jsval list" where
  "array_elements (JArr xs) = xs"
| "array_elements v = []"

text \<open>
  \<open>manualApprovers.filter(a => a.type === "user")\<close>: the callback runs on the elements
  in order, and reading \<open>a.type\<close> throws when an element is \<open>undefined\<close> or \<open>null\<close>.
\<close>

fun filter_user :: "jsval list \<Rightarrow> js_error + jsval list" where
  "filter_user [] = Inr []"
| "filter_user (a # rest) =
     (case get_prop a ''type'' of
        Inl e \<Rightarrow> Inl e
      | Inr t \<Rightarrow> (case filter_user rest of
                    Inl e \<Rightarrow> Inl e
                  | Inr kept \<Rightarrow> Inr (if t = JStr ''user'' then a # kept else kept)))"

text \<open>
  A property read \<open>v.p\<close> on a value that has just been tested truthy: it cannot throw,
  since \<open>undefined\<close> and \<open>null\<close> are falsy.
\<close>

definition field :: "jsval \<Rightarrow> string \<Rightarrow> jsval" where
  "field v p = (case get_prop v p of Inl e \<Rightarrow> JUndefined | Inr x \<Rightarrow> x)"

text \<open>Step 1 of the handler: create the rule for the gate type and give its \<open>_id\<close>.\<close>

definition create_rule :: "config \<Rightarrow> remote \<Rightarrow> gate_args \<Rightarrow> jsval io" where
  "create_rule cfg remote a =
     (if gateType a = JStr ''manual'' then
        (if \<not> truthy (gateName a) \<or> not_string_or_blank (gateName a)
         then throw_io (Error
           ''gateName (rule name) is required for manual gate and must be a non-empty string'')
         else if \<not> truthy (manualApprovers a) \<or> not_array_or_empty (manualApprovers a)
         then throw_io (Error ''manualApprovers (at least one user) is required for manual gate'')
         else bind_io (lift_io (filter_user (array_elements (manualApprovers a))))
           (\<lambda>userApprovers.
              if userApprovers = []
              then throw_io (Error
                ''At least one manual approver of type 'user' is required for manual gate'')
              else bind_io
                (executeGraphQL cfg remote AddManualVersionSignOffRule_doc
                   (JObj [(''input'', JObj
                      [(''name'', gateName a),
                       (''pipelineId'', pipelineId a),
                       (''approvers'', JArr userApprovers)])]))
                (\<lambda>result. bind_io (lift_io (get_prop result ''addManualVersionSignOffRule''))
                (\<lambda>rule. lift_io (get_prop rule ''_id'')))))
      else if gateType a = JStr ''metric'' then
        (if \<not> truthy (metricRule a) \<or> \<not> truthy (field (metricRule a) ''metricDefinition'')
            \<or> \<not> truthy (field (metricRule a) ''dql'')
         then throw_io (Error
           ''metricRule.metricDefinition and metricRule.dql are required for metric gate'')
         else bind_io
           (executeGraphQL cfg remote AddAutomatedMetricRule_doc
              (JObj [(''input'', JObj
                 [(''pipelineId'', pipelineId a),
                  (''name'', gateName a),
                  (''description'', field (metricRule a) ''description''),
                  (''metricDefinition'', field (metricRule a) ''metricDefinition''),
                  (''dql'', field (metricRule a) ''dql''),
                  (''dataSet'', field (metricRule a) ''dataSet''),
                  (''timeRange'', field (metricRule a) ''timeRange'')])]))
           (\<lambda>result. bind_io (lift_io (get_prop result ''addAutomatedMetricRule''))
           (\<lambda>rule. lift_io (get_prop rule ''_id''))))
      else if gateType a = JStr ''compliance'' then
        (if \<not> truthy (complianceRule a) \<or> \<not> truthy (field (complianceRule a) ''resource'')
            \<or> \<not> truthy (field (complianceRule a) ''dql'')
         then throw_io (Error
           ''complianceRule.resource and complianceRule.dql are required for compliance gate'')
         else bind_io
           (executeGraphQL cfg remote AddComplianceRule_doc
              (JObj [(''input'', JObj
                 [(''pipelineId'', pipelineId a),
                  (''name'', gateName a),
                  (''description'', field (complianceRule a) ''description''),
                  (''resource'', field (complianceRule a) ''resource''),
                  (''dql'', field (complianceRule a) ''dql'')])]))
           (\<lambda>result. bind_io (lift_io (get_prop result ''addComplianceRule''))
           (\<lambda>rule. lift_io (get_prop rule ''_id''))))
      else if gateType a = JStr ''status'' then
        (if \<not> truthy (statusRule a) \<or> \<not> truthy (field (statusRule a) ''status'')
         then throw_io (Error ''statusRule.status is required for status gate'')
         else bind_io
           (executeGraphQL cfg remote AddStatusRule_doc
              (JObj [(''input'', JObj
                 [(''pipelineId'', pipelineId a),
                  (''name'', gateName a),
                  (''status'', field (statusRule a) ''status''),
                  (''description'', field (statusRule a) ''description'')])]))
           (\<lambda>result. bind_io (lift_io (get_prop result ''addStatusRule''))
           (\<lambda>rule. lift_io (get_prop rule ''_id''))))
      else throw_io (Error ''Unsupported gateType''))"

text \<open>Step 2: the variables of the mutation that attaches the rule to the stage.\<close>

definition upsertVars :: "gate_args \<Rightarrow> jsval \<Rightarrow> jsval" where
  "upsertVars a ruleId =
     JObj [(''pipelineId'', pipelineId a),
           (''stageId'', stageId a),
           (''ruleIds'', JArr [ruleId]),
           (''manualGateNotification'', manualGateNotification a)]"

text \<open>The body of the handler's \<open>try\<close> block.\<close>

definition add_pipeline_gate_try :: "config \<Rightarrow> remote \<Rightarrow> gate_args \<Rightarrow> tool_result io" where
  "add_pipeline_gate_try cfg remote a =
     bind_io (create_rule cfg remote a)
       (\<lambda>ruleId. bind_io (executeGraphQL cfg remote UpsertPipelineGate_doc (upsertVars a ruleId))
       (\<lambda>upsertResult. bind_io (lift_io (get_prop upsertResult ''upsertPipelineGate''))
       (\<lambda>gate. return_io (text_result
          (''Gate added to pipeline stage: '' @ interpolate (json_stringify2 gate))))))"

definition add_pipeline_gate :: "config \<Rightarrow> remote \<Rightarrow> gate_args \<Rightarrow> tool_result io" where
  "add_pipeline_gate cfg remote a =
     try_catch (add_pipeline_gate_try cfg remote a)
       (\<lambda>error. return_io (text_result (''Error adding gate: '' @ message error)))"

section \<open>Derived descriptions of the code\<close>

text \<open>
  The definitions of this section restate parts of the functions above in the form the
  properties need; each is proved equal to the code it describes.
\<close>

definition auth_headers :: "string \<Rightarrow> (string \<times> string) list" where
  "auth_headers token =
     (if isSessionCookie token then cookie_headers token else access_key_headers token)"

text \<open>The one request \<open>executeGraphQL(query, variables)\<close> sends.\<close>

definition graphql_request :: "config \<Rightarrow> string \<Rightarrow> jsval \<Rightarrow> request" where
  "graphql_request cfg query variables =
     \<lparr>req_url = graphqlUrl cfg, req_method = ''POST'',
      req_headers = auth_headers (accessToken cfg),
      req_query = query, req_variables = default_param variables (JObj [])\<rparr>"

text \<open>The response handling of \<open>executeGraphQL\<close>, as a function of what \<open>fetch\<close> gave.\<close>

definition handle_response :: "js_error + response \<Rightarrow> js_error + jsval" where
  "handle_response outcome =
     (case outcome of
        Inl e \<Rightarrow> Inl e
      | Inr response \<Rightarrow>
          if \<not> ok response
          then Inl (Error (''HTTP '' @ show_nat (resp_status response) @ '': '' @ resp_text response))
          else (case resp_json response of
                  Inl e \<Rightarrow> Inl e
                | Inr data \<Rightarrow>
                    (case object_keys data of
                       Inl e \<Rightarrow> Inl e
                     | Inr keys \<Rightarrow>
                         if truthy (field data ''errors'')
                         then Inl (Error (''GraphQL errors: ''
                                      @ interpolate (json_stringify (field data ''errors''))))
                         else Inr (field data ''data''))))"

text \<open>What a \<open>catch\<close> can read from a thrown error: its \<open>message\<close>, a string.\<close>

definition detail :: "js_error \<Rightarrow> jsval" where
  "detail e = JStr (message e)"

text \<open>
  The JavaScript value a handler returns: \<open>{content: [{type: 'text', text: t}]}\<close>.
\<close>

definition js_of_result :: "tool_result \<Rightarrow> jsval" where
  "js_of_result items =
     JObj [(''content'',
            JArr (map (\<lambda>item. case item of TextItem t \<Rightarrow> JObj [(''type'', JStr ''text''), (''text'', JStr t)])
                      items))]"

text \<open>
  What a simple tool makes of the outcome of its one \<open>executeGraphQL\<close> call: the error
  text of the tool with the message of the error thrown by the call or by the read of the
  result field, or the success text of the tool with \<open>JSON.stringify(found, null, 2)\<close> of
  the result field; the requests sent are those of the call.
\<close>

definition text_answer ::
  "string \<Rightarrow> string \<Rightarrow> string \<Rightarrow> (js_error + jsval) \<times> request list
     \<Rightarrow> (js_error + tool_result) \<times> request list" where
  "text_answer okp errp fld outcome =
     (case outcome of
        (Inl e, log') \<Rightarrow> (Inr [TextItem (errp @ message e)], log')
      | (Inr result, log') \<Rightarrow>
          (case get_prop result fld of
             Inl e \<Rightarrow> (Inr [TextItem (errp @ message e)], log')
           | Inr found \<Rightarrow> (Inr [TextItem (okp @ interpolate (json_stringify2 found))], log')))"

text \<open>An approver entry of kind \<open>user\<close>.\<close>

definition is_user :: "jsval \<Rightarrow> bool" where
  "is_user x = (field x ''type'' = JStr ''user'')"

text \<open>
  The checks and the payload shaping of \<open>create_rule\<close> without the network call: the
  error thrown before any request, or the mutation document, the variables and the name
  of the result field of the rule that is created.
\<close>

definition rule_request :: "gate_args \<Rightarrow> js_error + (string \<times> jsval \<times> string)" where
  "rule_request a =
     (if gateType a = JStr ''manual'' then
        (if \<not> truthy (gateName a) \<or> not_string_or_blank (gateName a)
         then Inl (Error
           ''gateName (rule name) is required for manual gate and must be a non-empty string'')
         else if \<not> truthy (manualApprovers a) \<or> not_array_or_empty (manualApprovers a)
         then Inl (Error ''manualApprovers (at least one user) is required for manual gate'')
         else (case filter_user (array_elements (manualApprovers a)) of
                 Inl e \<Rightarrow> Inl e
               | Inr userApprovers \<Rightarrow>
                   if userApprovers = []
                   then Inl (Error
                     ''At least one manual approver of type 'user' is required for manual gate'')
                   else Inr (AddManualVersionSignOffRule_doc,
                     JObj [(''input'', JObj
                       [(''name'', gateName a),
                        (''pipelineId'', pipelineId a),
                        (''approvers'', JArr userApprovers)])],
                     ''addManualVersionSignOffRule'')))
      else if gateType a = JStr ''metric'' then
        (if \<not> truthy (metricRule a) \<or> \<not> truthy (field (metricRule a) ''metricDefinition'')
            \<or> \<not> truthy (field (metricRule a) ''dql'')
         then Inl (Error
           ''metricRule.metricDefinition and metricRule.dql are required for metric gate'')
         else Inr (AddAutomatedMetricRule_doc,
              JObj [(''input'', JObj
                 [(''pipelineId'', pipelineId a),
                  (''name'', gateName a),
                  (''description'', field (metricRule a) ''description''),
                  (''metricDefinition'', field (metricRule a) ''metricDefinition''),
                  (''dql'', field (metricRule a) ''dql''),
                  (''dataSet'', field (metricRule a) ''dataSet''),
                  (''timeRange'', field (metricRule a) ''timeRange'')])],
              ''addAutomatedMetricRule''))
      else if gateType a = JStr ''compliance'' then
        (if \<not> truthy (complianceRule a) \<or> \<not> truthy (field (complianceRule a) ''resource'')
            \<or> \<not> truthy (field (complianceRule a) ''dql'')
         then Inl (Error
           ''complianceRule.resource and complianceRule.dql are required for compliance gate'')
         else Inr (AddComplianceRule_doc,
              JObj [(''input'', JObj
                 [(''pipelineId'', pipelineId a),
                  (''name'', gateName a),
                  (''description'', field (complianceRule a) ''description''),
                  (''resource'', field (complianceRule a) ''resource''),
                  (''dql'', field (complianceRule a) ''dql'')])],
              ''addComplianceRule''))
      else if gateType a = JStr ''status'' then
        (if \<not> truthy (statusRule a) \<or> \<not> truthy (field (statusRule a) ''status'')
         then Inl (Error ''statusRule.status is required for status gate'')
         else Inr (AddStatusRule_doc,
              JObj [(''input'', JObj
                 [(''pipelineId'', pipelineId a),
                  (''name'', gateName a),
                  (''status'', field (statusRule a) ''status''),
                  (''description'', field (statusRule a) ''description'')])],
              ''addStatusRule''))
      else Inl (Error ''Unsupported gateType''))"


text \<open>The network part of \<open>create_rule\<close>: submit the mutation and read the \<open>_id\<close> of the rule.\<close>

definition submit_rule :: "config \<Rightarrow> remote \<Rightarrow> string \<times> jsval \<times> string \<Rightarrow> jsval io" where
  "submit_rule cfg remote call =
     (case call of (doc, vars, fld) \<Rightarrow>
        bind_io (executeGraphQL cfg remote doc vars)
          (\<lambda>result. bind_io (lift_io (get_prop result fld))
          (\<lambda>rule. lift_io (get_prop rule ''_id''))))"

text \<open>The errors thrown by the checks of \<open>create_rule\<close>.\<close>

definition validation_errors :: "js_error list" where
  "validation_errors =
     [Error ''gateName (rule name) is required for manual gate and must be a non-empty string'',
      Error ''manualApprovers (at least one user) is required for manual gate'',
      Error ''At least one manual approver of type 'user' is required for manual gate'',
      Error ''metricRule.metricDefinition and metricRule.dql are required for metric gate'',
      Error ''complianceRule.resource and complianceRule.dql are required for compliance gate'',
      Error ''statusRule.status is required for status gate'',
      Error ''Unsupported gateType'']"

section \<open>JSON texts read back\<close>

text \<open>
  The definitions of this section serve to prove that the text written by
  \<open>JSON.stringify\<close> determines the value it was written from.
\<close>

text \<open>
  The characters of the text JavaScript prints for a finite number, and such a text.
\<close>

definition num_char :: "char \<Rightarrow> bool" where
  "num_char c = (c \<in> set ''0123456789.e+-'')"

definition number_text :: "string \<Rightarrow> bool" where
  "number_text t = (t \<noteq> [] \<and> (\<forall>c\<in>set t. num_char c))"

text \<open>
  A value that a JSON text denotes and \<open>JSON.stringify\<close> writes in full: no
  \<open>undefined\<close> inside, every number finite. The result of \<open>response.json()\<close> is
  such a value.
\<close>

fun json_value :: "jsval \<Rightarrow> bool" where
  "json_value JUndefined = False"
| "json_value JNull = True"
| "json_value (JBool b) = True"
| "json_value (JNum t) = number_text t"
| "json_value (JStr s) = True"
| "json_value (JArr xs) = (\<forall>x\<in>set xs. json_value x)"
| "json_value (JObj ps) = (\<forall>kv\<in>set ps. json_value (snd kv))"

text \<open>Reading one character of a quoted JSON string back, with its escape.\<close>

definition hex_value :: "char \<Rightarrow> nat" where
  "hex_value c = (if of_char c < (58::nat) then of_char c - 48 else of_char c - 87)"

fun unescape :: "string \<Rightarrow> (char \<times> string) option" where
  "unescape [] = None"
| "unescape (c # rest) =
     (if c = dquote then None
      else if c \<noteq> backslash then Some (c, rest)
      else (case rest of
              [] \<Rightarrow> None
            | e # rest' \<Rightarrow>
                if e = dquote then Some (dquote, rest')
                else if e = backslash then Some (backslash, rest')
                else if e = CHR ''b'' then Some (CHR 0x08, rest')
                else if e = CHR ''f'' then Some (CHR 0x0C, rest')
                else if e = CHR ''n'' then Some (CHR 0x0A, rest')
                else if e = CHR ''r'' then Some (CHR 0x0D, rest')
                else if e = CHR ''t'' then Some (CHR 0x09, rest')
                else if e = CHR ''u'' then
                  (case rest' of
                     a # b # h # l # rest'' \<Rightarrow> Some (char_of (16 * hex_value h + hex_value l), rest'')
                   | _ \<Rightarrow> None)
                else None))"

text \<open>What can follow a value inside a JSON text: nothing, a comma, a closing bracket or a line feed.\<close>

definition delim :: "string \<Rightarrow> bool" where
  "delim r = (case r of [] \<Rightarrow> True | c # t \<Rightarrow> c \<in> {CHR '','', CHR '']'', CHR ''}'', newline})"

text \<open>The text of a value as an array element: \<open>null\<close> for \<open>undefined\<close>.\<close>

definition ser_text :: "string \<Rightarrow> string \<Rightarrow> jsval \<Rightarrow> string" where
  "ser_text gap ind v = (case ser gap ind v of None \<Rightarrow> ''null'' | Some t \<Rightarrow> t)"

text \<open>The pieces \<open>wrap\<close> puts before, between and after the members.\<close>

definition opener :: "string \<Rightarrow> string \<Rightarrow> string \<Rightarrow> string" where
  "opener gap ind opening = (if gap = [] then opening else opening @ [newline] @ ind @ gap)"

definition separator :: "string \<Rightarrow> string \<Rightarrow> string" where
  "separator gap ind = (if gap = [] then '','' else '','' @ [newline] @ ind @ gap)"

definition closer :: "string \<Rightarrow> string \<Rightarrow> string \<Rightarrow> string" where
  "closer gap ind closing = (if gap = [] then closing else [newline] @ ind @ closing)"

text \<open>The text of one property of an object.\<close>

definition member_text :: "string \<Rightarrow> string \<Rightarrow> string \<times> jsval \<Rightarrow> string" where
  "member_text gap ind kv =
     json_quote (fst kv) @ '':'' @ (if gap = [] then [] else '' '') @ ser_text gap ind (snd kv)"

text \<open>The first character of the text of a value tells its kind.\<close>

fun head_ok :: "jsval \<Rightarrow> char \<Rightarrow> bool" where
  "head_ok JUndefined h = False"
| "head_ok JNull h = (h = CHR ''n'')"
| "head_ok (JBool b) h = (h = (if b then CHR ''t'' else CHR ''f''))"
| "head_ok (JNum t) h = num_char h"
| "head_ok (JStr s) h = (h = dquote)"
| "head_ok (JArr xs) h = (h = CHR ''['')"
| "head_ok (JObj ps) h = (h = CHR ''{'')"

definition char_kind :: "char \<Rightarrow> nat" where
  "char_kind h =
     (if h = CHR ''n'' then 1 else if h = CHR ''t'' then 2 else if h = CHR ''f'' then 3
      else if h = dquote then 5 else if h = CHR ''['' then 6 else if h = CHR ''{'' then 7 else 4)"

fun kind :: "jsval \<Rightarrow> nat" where
  "kind JUndefined = 0"
| "kind JNull = 1"
| "kind (JBool b) = (if b then 2 else 3)"
| "kind (JNum t) = 4"
| "kind (JStr s) = 5"
| "kind (JArr xs) = 6"
| "kind (JObj ps) = 7"

text \<open>The members after the first, each behind a separator, and what follows them.\<close>

fun tail_text :: "string \<Rightarrow> string list \<Rightarrow> string \<Rightarrow> string" where
  "tail_text sep [] rest = rest"
| "tail_text sep (p # ps) rest = sep @ p @ tail_text sep ps rest"

section \<open>The specification's gate validation\<close>

text \<open>
  A gate request that fails the validation as the specification words it: a manual gate
  whose name is empty after trimming or that has no approver of kind \<open>user\<close>; a metric
  gate without metric definition or without query condition; a compliance gate without
  resource or without query condition; a status gate without status; any other gate type.
\<close>

fun blank_name :: "jsval \<Rightarrow> bool" where
  "blank_name (JStr s) = (trim s = [])"
| "blank_name v = False"

definition gate_spec_invalid :: "gate_args \<Rightarrow> bool" where
  "gate_spec_invalid a =
     (if gateType a = JStr ''manual''
      then blank_name (gateName a) \<or> filter is_user (array_elements (manualApprovers a)) = []
      else if gateType a = JStr ''metric''
      then field (metricRule a) ''metricDefinition'' = JUndefined
           \<or> field (metricRule a) ''dql'' = JUndefined
      else if gateType a = JStr ''compliance''
      then field (complianceRule a) ''resource'' = JUndefined
           \<or> field (complianceRule a) ''dql'' = JUndefined
      else if gateType a = JStr ''status''
      then field (statusRule a) ''status'' = JUndefined
      else True)"

section \<open>Concrete runs\<close>

definition cfg_key :: config where
  "cfg_key = \<lparr>graphqlUrl = ''https://velocity.example/graphql'', accessToken = ''k-123'',
              tenantId = ''tenant-1''\<rparr>"

definition cfg_cookie :: config where
  "cfg_cookie = \<lparr>graphqlUrl = ''https://velocity.example/graphql'',
                 accessToken = ''VelocitySession=abc'', tenantId = ''tenant-1''\<rparr>"

definition json_response :: "nat \<Rightarrow> jsval \<Rightarrow> response" where
  "json_response code v =
     \<lparr>resp_status = code, resp_text = interpolate (json_stringify v), resp_json = Inr v\<rparr>"

definition bad_field_errors :: jsval where
  "bad_field_errors = JArr [JObj [(''message'', JStr ''bad field'')]]"

text \<open>The text \<^verbatim>\<open>GraphQL errors: [{"message":"bad field"}]\<close>.\<close>

definition bad_field_message :: string where
  "bad_field_message =
     ''GraphQL errors: [{'' @ [dquote] @ ''message'' @ [dquote] @ '':''
       @ [dquote] @ ''bad field'' @ [dquote] @ ''}]''"

text \<open>A service that answers every request with status 500 and a GraphQL-shaped body.\<close>

definition remote_500 :: remote where
  "remote_500 log req =
     Inr \<lparr>resp_status = 500, resp_text = ''Internal Server Error'',
          resp_json = Inr (JObj [(''errors'', bad_field_errors)])\<rparr>"

text \<open>A service that answers every request with status 200 and one GraphQL error.\<close>

definition remote_bad_field :: remote where
  "remote_bad_field log req = Inr (json_response 200 (JObj [(''errors'', bad_field_errors)]))"

text \<open>A service that answers with data and an empty \<open>errors\<close> array.\<close>

definition remote_empty_errors :: remote where
  "remote_empty_errors log req =
     Inr (json_response 200 (JObj [(''data'', JObj [(''x'', JNum ''1'')]), (''errors'', JArr [])]))"

text \<open>A service that answers with data and no \<open>errors\<close> field.\<close>

definition remote_data :: remote where
  "remote_data log req =
     Inr (json_response 200 (JObj [(''data'', JObj [(''pipelinesByTenantId'', JArr [])])]))"

text \<open>
  A service that creates the rule \<open>r1\<close> on the first request and attaches the gate on the
  second.
\<close>

definition attached_gate :: jsval where
  "attached_gate = JObj [(''_id'', JStr ''g1''), (''manualGateNotification'', JBool True)]"

definition remote_gate :: remote where
  "remote_gate log req =
     (if log = []
      then Inr (json_response 200 (JObj [(''data'', JObj
             [(''addManualVersionSignOffRule'', JObj [(''_id'', JStr ''r1'')])])]))
      else Inr (json_response 200 (JObj [(''data'', JObj
             [(''upsertPipelineGate'', attached_gate)])])))"

definition user_u1 :: jsval where
  "user_u1 = JObj [(''_id'', JStr ''u1''), (''name'', JStr ''Ann''), (''type'', JStr ''user'')]"

definition group_g1 :: jsval where
  "group_g1 = JObj [(''_id'', JStr ''g1''), (''name'', JStr ''Ops''), (''type'', JStr ''group'')]"

definition manual_args :: gate_args where
  "manual_args =
     \<lparr>pipelineId = JStr ''p1'', stageId = JStr ''s1'', gateType = JStr ''manual'',
      gateName = JStr ''Approval'', manualApprovers = JArr [user_u1, group_g1],
      metricRule = JUndefined, complianceRule = JUndefined, statusRule = JUndefined,
      manualGateNotification = JBool True\<rparr>"

text \<open>A gate name that is one no-break space.\<close>

definition nbsp_args :: gate_args where
  "nbsp_args = manual_args\<lparr>gateName := JStr [CHR 0xA0]\<rparr>"

definition group_only_args :: gate_args where
  "group_only_args = manual_args\<lparr>manualApprovers := JArr [group_g1]\<rparr>"

text \<open>
  The text of \<open>JSON.stringify(attached_gate, null, 2)\<close>: one property per line, indented
  by two spaces.
\<close>

definition attached_gate_text :: string where
  "attached_gate_text =
     ''{'' @ [newline] @ ''  '' @ [dquote] @ ''_id'' @ [dquote] @ '': '' @ [dquote] @ ''g1''
       @ [dquote] @ '','' @ [newline] @ ''  '' @ [dquote] @ ''manualGateNotification'' @ [dquote]
       @ '': true'' @ [newline] @ ''}''"

section \<open>Properties of the helpers\<close>

lemma starts_with_iff: "starts_with s t \<longleftrightarrow> (\<exists>q. s = t @ q)"
  by (induction s t rule: starts_with.induct) auto

lemma str_includes_iff: "str_includes s t \<longleftrightarrow> (\<exists>p q. s = p @ t @ q)"
proof (induction s t rule: str_includes.induct)
  case (1 t)
  then show ?case by (cases t) auto
next
  case (2 d s t)
  show ?case
  proof
    assume "str_includes (d # s) t"
    then consider "starts_with (d # s) t" | "str_includes s t" by auto
    then show "\<exists>p q. d # s = p @ t @ q"
    proof cases
      case 1
      then obtain q where "d # s = t @ q" by (auto simp: starts_with_iff)
      then have "d # s = [] @ t @ q" by simp
      then show ?thesis by blast
    next
      case 2
      with "2.IH" obtain p q where "s = p @ t @ q" by auto
      then have "d # s = (d # p) @ t @ q" by simp
      then show ?thesis by blast
    qed
  next
    assume "\<exists>p q. d # s = p @ t @ q"
    then obtain p q where pq: "d # s = p @ t @ q" by auto
    show "str_includes (d # s) t"
    proof (cases p)
      case Nil
      with pq have "starts_with (d # s) t" by (auto simp: starts_with_iff)
      then show ?thesis by simp
    next
      case (Cons c p')
      with pq have "s = p' @ t @ q" by simp
      with "2.IH" have "str_includes s t" by blast
      then show ?thesis by simp
    qed
  qed
qed



lemma digit_value_digit_char: "d < 10 \<Longrightarrow> digit_value (digit_char d) = d"
  by (simp add: digit_value_def digit_char_def)

lemma read_nat_show_nat: "read_nat (show_nat n) = n"
proof (induction n rule: show_nat.induct)
  case (1 n)
  show ?case
  proof (cases "n < 10")
    case True
    then show ?thesis
      by (simp add: show_nat.simps [of n] read_nat_def digit_value_digit_char)
  next
    case False
    with 1 have "read_nat (show_nat (n div 10)) = n div 10" by simp
    with False show ?thesis
      by (simp add: show_nat.simps [of n] read_nat_def digit_value_digit_char)
  qed
qed

lemma object_keys_Inr: "object_keys d = Inr ks \<Longrightarrow> get_prop d p = Inr (field d p)"
  by (cases d) (auto simp: field_def)

lemma bind_lift_Inl: "bind_io (lift_io (Inl e)) f = throw_io e"
  by (rule ext) (simp add: bind_io_def lift_io_def throw_io_def)

lemma bind_lift_Inr: "bind_io (lift_io (Inr v)) f = f v"
  by (rule ext) (simp add: bind_io_def lift_io_def)

subsection \<open>The text of \<open>JSON.stringify\<close> determines the value\<close>

lemma hex_value_hex_char: "d < 16 \<Longrightarrow> hex_value (hex_char d) = d"
  by (simp add: hex_value_def hex_char_def digit_char_def)

lemma unescape_escape_char: "unescape (escape_char c @ x) = Some (c, x)"
proof (cases "(of_char c :: nat) < 32")
  case True
  then have hi: "(of_char c :: nat) div 16 < 16" and lo: "(of_char c :: nat) mod 16 < 16" by simp_all
  have restore: "char_of (16 * ((of_char c :: nat) div 16) + (of_char c :: nat) mod 16) = c"
    by simp
  show ?thesis
    using True restore
    by (simp add: escape_char_def hex_value_hex_char [OF hi] hex_value_hex_char [OF lo]
        dquote_def backslash_def)
next
  case False
  then show ?thesis
    by (auto simp: escape_char_def dquote_def backslash_def)
qed

lemma escaped_unique:
  "concat (map escape_char s) @ dquote # r = concat (map escape_char s') @ dquote # r'
   \<Longrightarrow> s = s' \<and> r = r'"
proof (induction s arbitrary: s')
  case Nil
  show ?case
  proof (cases s')
    case Nil
    with Nil.prems show ?thesis by simp
  next
    case (Cons d t)
    with Nil.prems
    have "unescape (dquote # r) = unescape (escape_char d @ (concat (map escape_char t) @ dquote # r'))"
      by simp
    then show ?thesis by (simp add: unescape_escape_char)
  qed
next
  case (Cons c s)
  show ?case
  proof (cases s')
    case Nil
    with Cons.prems
    have "unescape (escape_char c @ (concat (map escape_char s) @ dquote # r)) = unescape (dquote # r')"
      by simp
    then show ?thesis by (simp add: unescape_escape_char)
  next
    case (Cons d t)
    with Cons.prems
    have "unescape (escape_char c @ (concat (map escape_char s) @ dquote # r))
        = unescape (escape_char d @ (concat (map escape_char t) @ dquote # r'))"
      by simp
    then have "c = d" and "concat (map escape_char s) @ dquote # r = concat (map escape_char t) @ dquote # r'"
      by (simp_all add: unescape_escape_char)
    with Cons.IH [of t] Cons show ?thesis by simp
  qed
qed

lemma json_quote_unique: "json_quote s @ r = json_quote s' @ r' \<Longrightarrow> s = s' \<and> r = r'"
  using escaped_unique [of s r s' r'] by (simp add: json_quote_def)

lemma delim_not_num: "delim r \<Longrightarrow> r = [] \<or> \<not> num_char (hd r)"
  by (cases r) (auto simp: delim_def num_char_def newline_def)

lemma takeWhile_number: "\<forall>c\<in>set t. num_char c \<Longrightarrow> delim r \<Longrightarrow> takeWhile num_char (t @ r) = t"
  using delim_not_num [of r] by (cases r) (simp_all add: takeWhile_append2)

lemma number_unique:
  assumes "number_text t" and "number_text t'" and "delim r" and "delim r'" and "t @ r = t' @ r'"
  shows "t = t' \<and> r = r'"
proof -
  from assms(1) have "\<forall>c\<in>set t. num_char c" by (simp add: number_text_def)
  then have "takeWhile num_char (t @ r) = t" using assms(3) by (rule takeWhile_number)
  moreover
  from assms(2) have "\<forall>c\<in>set t'. num_char c" by (simp add: number_text_def)
  then have "takeWhile num_char (t' @ r') = t'" using assms(4) by (rule takeWhile_number)
  ultimately have "t = t'" using assms(5) by simp
  with assms(5) show ?thesis by simp
qed

lemma ser_Some: "json_value v \<Longrightarrow> ser gap ind v = Some (ser_text gap ind v)"
  by (cases v) (simp_all add: ser_text_def)

lemma number_text_plain:
  assumes "number_text t"
  shows "t \<noteq> ''Infinity'' \<and> t \<noteq> ''-Infinity'' \<and> t \<noteq> ''NaN''"
proof -
  have no: "\<not> num_char (CHR ''I'')" "\<not> num_char (CHR ''N'')"
    by (simp_all add: num_char_def)
  from assms have all: "\<forall>c\<in>set t. num_char c" by (simp add: number_text_def)
  have "t \<noteq> ''Infinity''"
  proof
    assume "t = ''Infinity''"
    then have "CHR ''I'' \<in> set t" by simp
    with all no show False by blast
  qed
  moreover have "t \<noteq> ''-Infinity''"
  proof
    assume "t = ''-Infinity''"
    then have "CHR ''I'' \<in> set t" by simp
    with all no show False by blast
  qed
  moreover have "t \<noteq> ''NaN''"
  proof
    assume "t = ''NaN''"
    then have "CHR ''N'' \<in> set t" by simp
    with all no show False by blast
  qed
  ultimately show ?thesis by simp
qed

lemma ser_text_simps:
  "ser_text gap ind JNull = ''null''"
  "ser_text gap ind (JBool b) = (if b then ''true'' else ''false'')"
  "number_text t \<Longrightarrow> ser_text gap ind (JNum t) = t"
  "ser_text gap ind (JStr s) = json_quote s"
  "ser_text gap ind (JArr xs) = wrap gap ind ''['' '']'' (map (ser_text gap (ind @ gap)) xs)"
  using number_text_plain [of t] by (simp_all add: ser_text_def [abs_def])

lemma members_concat:
  "\<forall>kv\<in>set ps. json_value (snd kv) \<Longrightarrow>
   concat (map (\<lambda>kv. case ser gap ind (snd kv) of
                        None \<Rightarrow> []
                      | Some t \<Rightarrow> [json_quote (fst kv) @ '':'' @ (if gap = [] then [] else '' '') @ t])
               ps) = map (member_text gap ind) ps"
  by (induction ps) (simp_all add: ser_Some member_text_def)

lemma ser_text_object:
  "json_value (JObj ps) \<Longrightarrow>
   ser_text gap ind (JObj ps) = wrap gap ind ''{'' ''}'' (map (member_text gap (ind @ gap)) ps)"
  by (simp add: ser_text_def members_concat)

lemma wrap_Nil: "wrap gap ind opening closing [] = opening @ closing"
  by (simp add: wrap_def)

lemma concat_tail_text: "concat (map ((@) sep) ps) @ rest = tail_text sep ps rest"
  by (induction ps) simp_all

lemma tail_text_append: "tail_text sep ps rest @ r = tail_text sep ps (rest @ r)"
  by (induction ps) simp_all

lemma wrap_Cons:
  "wrap gap ind opening closing (p # ps) @ r =
     opener gap ind opening @ p @ tail_text (separator gap ind) ps (closer gap ind closing @ r)"
proof -
  have "wrap gap ind opening closing (p # ps) =
      opener gap ind opening @ p @ concat (map ((@) (separator gap ind)) ps) @ closer gap ind closing"
    by (simp add: wrap_def join_def opener_def separator_def closer_def)
  then show ?thesis by (simp add: concat_tail_text tail_text_append)
qed

lemma ser_text_head: "json_value v \<Longrightarrow> \<exists>h t. ser_text gap ind v = h # t \<and> head_ok v h"
proof (cases v)
  case (JNum t)
  assume "json_value v"
  with JNum have nt: "number_text t" by simp
  then obtain h t' where "t = h # t'" and "num_char h"
    by (cases t) (auto simp: number_text_def)
  with JNum nt show ?thesis by (simp add: ser_text_simps)
next
  case (JArr xs)
  then show ?thesis
    using wrap_Cons [of gap ind "''[''" "'']''" _ _ "[]"]
    by (cases xs) (simp_all add: ser_text_simps wrap_Nil opener_def)
next
  case (JObj ps)
  assume "json_value v"
  with JObj show ?thesis
    using wrap_Cons [of gap ind "''{''" "''}''" _ _ "[]"]
    by (cases ps) (simp_all add: ser_text_object wrap_Nil opener_def)
qed (simp_all add: ser_text_simps json_quote_def)

lemma num_char_not_lead:
  "num_char h \<Longrightarrow>
   h \<noteq> CHR ''n'' \<and> h \<noteq> CHR ''t'' \<and> h \<noteq> CHR ''f'' \<and> h \<noteq> dquote \<and> h \<noteq> CHR ''['' \<and> h \<noteq> CHR ''{''
   \<and> h \<noteq> CHR '']'' \<and> h \<noteq> CHR ''}''"
  by (auto simp: num_char_def dquote_def)

lemma head_kind: "head_ok v h \<Longrightarrow> kind v = char_kind h"
proof (cases v)
  case (JNum t)
  assume "head_ok v h"
  with JNum have "num_char h" by simp
  from num_char_not_lead [OF this] JNum show ?thesis by (simp add: char_kind_def)
qed (auto simp: char_kind_def dquote_def)

lemma same_kind:
  assumes "json_value v" and "json_value w"
    and "ser_text gap ind v @ r = ser_text gap ind' w @ r'"
  shows "kind v = kind w"
proof -
  from assms(1) obtain h t where v: "ser_text gap ind v = h # t" "head_ok v h"
    using ser_text_head by blast
  from assms(2) obtain h' t' where w: "ser_text gap ind' w = h' # t'" "head_ok w h'"
    using ser_text_head by blast
  from assms(3) v w have "h = h'" by simp
  with head_kind [OF v(2)] head_kind [OF w(2)] show ?thesis by simp
qed

lemma delim_tail:
  "c \<in> {CHR '']'', CHR ''}'', newline} \<Longrightarrow> delim (tail_text (CHR '','' # sep) ps ((c # cl) @ r))"
  by (cases ps) (auto simp: delim_def)

lemma members_unique:
  fixes g :: "'a \<Rightarrow> string"
  assumes "\<And>x y t t'. x \<in> set xs \<Longrightarrow> Q y \<Longrightarrow> g x @ t = g y @ t' \<Longrightarrow> delim t \<Longrightarrow> delim t'
            \<Longrightarrow> x = y \<and> t = t'"
    and "\<forall>y\<in>set ys. Q y"
    and "c \<in> {CHR '']'', CHR ''}'', newline}"
    and "tail_text (CHR '','' # sep) (map g xs) ((c # cl) @ r)
       = tail_text (CHR '','' # sep) (map g ys) ((c # cl) @ r')"
  shows "xs = ys \<and> r = r'"
  using assms
proof (induction xs arbitrary: ys)
  case Nil
  then show ?case by (cases ys) (auto simp: newline_def)
next
  case (Cons x xs)
  show ?case
  proof (cases ys)
    case Nil
    with Cons.prems(3,4) show ?thesis by (auto simp: newline_def)
  next
    case ys: (Cons y ys')
    let ?T = "tail_text (CHR '','' # sep) (map g xs) ((c # cl) @ r)"
    let ?T' = "tail_text (CHR '','' # sep) (map g ys') ((c # cl) @ r')"
    from Cons.prems(4) ys have eq: "g x @ ?T = g y @ ?T'" by simp
    have d: "delim ?T" "delim ?T'"
      using Cons.prems(3) by (rule delim_tail)+
    from Cons.prems(2) ys have "Q y" by simp
    with Cons.prems(1) [of x y ?T ?T'] eq d have xy: "x = y" and T: "?T = ?T'" by simp_all
    have "xs = ys' \<and> r = r'"
    proof (rule Cons.IH)
      show "x' = y' \<and> t = t'"
        if "x' \<in> set xs" "Q y'" "g x' @ t = g y' @ t'" "delim t" "delim t'" for x' y' t t'
      proof -
        from that(1) have "x' \<in> set (x # xs)" by simp
        then show ?thesis using that(2-5) by (rule Cons.prems(1))
      qed
      show "\<forall>y\<in>set ys'. Q y" using Cons.prems(2) ys by simp
      show "c \<in> {CHR '']'', CHR ''}'', newline}" by (rule Cons.prems(3))
      show "?T = ?T'" by (rule T)
    qed
    with xy ys show ?thesis by simp
  qed
qed

lemma separator_Cons: "\<exists>sep. separator gap ind = CHR '','' # sep"
  by (simp add: separator_def)

lemma closer_Cons:
  "cc \<in> {CHR '']'', CHR ''}''} \<Longrightarrow>
   \<exists>c cl. closer gap ind [cc] = c # cl \<and> c \<in> {CHR '']'', CHR ''}'', newline}"
  by (auto simp: closer_def)

lemma wrapped_unique:
  fixes g :: "'a \<Rightarrow> string"
  assumes dec: "\<And>x y t t'. x \<in> set xs \<Longrightarrow> Q y \<Longrightarrow> g x @ t = g y @ t' \<Longrightarrow> delim t \<Longrightarrow> delim t'
            \<Longrightarrow> x = y \<and> t = t'"
    and Qys: "\<forall>y\<in>set ys. Q y"
    and hx: "\<forall>x\<in>set xs. \<exists>h t. g x = h # t \<and> h \<noteq> cc"
    and hy: "\<forall>y\<in>set ys. \<exists>h t. g y = h # t \<and> h \<noteq> cc"
    and cc: "cc \<in> {CHR '']'', CHR ''}''}"
    and eq: "wrap gap ind [oc] [cc] (map g xs) @ r = wrap gap ind [oc] [cc] (map g ys) @ r'"
  shows "xs = ys \<and> r = r'"
proof -
  obtain sep where sep: "separator gap ind = CHR '','' # sep"
    using separator_Cons by blast
  from cc obtain c cl where cl: "closer gap ind [cc] = c # cl" "c \<in> {CHR '']'', CHR ''}'', newline}"
    using closer_Cons by blast
  have cc_nl: "cc \<noteq> newline" using cc by (auto simp: newline_def)
  show ?thesis
  proof (cases xs)
    case Nil
    show ?thesis
    proof (cases ys)
      case ysNil: Nil
      with Nil eq show ?thesis by (simp add: wrap_Nil)
    next
      case (Cons y ys')
      with hy obtain h t where "g y = h # t" "h \<noteq> cc" by auto
      with Nil Cons eq cc_nl show ?thesis
        by (auto simp: wrap_Nil wrap_Cons opener_def split: if_splits)
    qed
  next
    case xs: (Cons x xs')
    show ?thesis
    proof (cases ys)
      case Nil
      from xs hx obtain h t where "g x = h # t" "h \<noteq> cc" by auto
      with Nil xs eq cc_nl show ?thesis
        by (auto simp: wrap_Nil wrap_Cons opener_def split: if_splits)
    next
      case ys: (Cons y ys')
      let ?T = "tail_text (CHR '','' # sep) (map g xs') ((c # cl) @ r)"
      let ?T' = "tail_text (CHR '','' # sep) (map g ys') ((c # cl) @ r')"
      from eq xs ys have e: "g x @ ?T = g y @ ?T'"
        by (simp add: wrap_Cons sep cl)
      have d: "delim ?T" "delim ?T'" using cl(2) by (rule delim_tail)+
      from Qys ys have "Q y" by simp
      with dec [of x y ?T ?T'] xs e d have xy: "x = y" and T: "?T = ?T'" by simp_all
      have "xs' = ys' \<and> r = r'"
      proof (rule members_unique)
        show "x' = y' \<and> t = t'"
          if "x' \<in> set xs'" "Q y'" "g x' @ t = g y' @ t'" "delim t" "delim t'" for x' y' t t'
        proof -
          from that(1) xs have "x' \<in> set xs" by simp
          then show ?thesis using that(2-5) by (rule dec)
        qed
        show "\<forall>y\<in>set ys'. Q y" using Qys ys by simp
        show "c \<in> {CHR '']'', CHR ''}'', newline}" by (rule cl(2))
        show "?T = ?T'" by (rule T)
      qed
      with xy xs ys show ?thesis by simp
    qed
  qed
qed

lemma head_not_close: "head_ok v h \<Longrightarrow> h \<noteq> CHR '']'' \<and> h \<noteq> CHR ''}''"
  by (cases v) (auto dest: num_char_not_lead simp: dquote_def split: if_splits)

lemma element_head:
  "json_value v \<Longrightarrow> \<exists>h t. ser_text gap ind v = h # t \<and> h \<noteq> CHR '']''"
  using ser_text_head [of v gap ind] head_not_close by blast

lemma member_text_head: "\<exists>h t. member_text gap ind kv = h # t \<and> h \<noteq> CHR ''}''"
  by (simp add: member_text_def json_quote_def dquote_def)

lemma member_text_unique:
  assumes dec: "\<And>w t t'. json_value w \<Longrightarrow> ser_text gap ind (snd kv) @ t = ser_text gap ind w @ t'
                 \<Longrightarrow> delim t \<Longrightarrow> delim t' \<Longrightarrow> snd kv = w \<and> t = t'"
    and "json_value (snd kv')"
    and "member_text gap ind kv @ t = member_text gap ind kv' @ t'"
    and "delim t" and "delim t'"
  shows "kv = kv' \<and> t = t'"
proof -
  let ?sp = "(if gap = [] then [] else '' '') :: string"
  from assms(3)
  have "json_quote (fst kv) @ ('':'' @ ?sp @ ser_text gap ind (snd kv) @ t)
      = json_quote (fst kv') @ ('':'' @ ?sp @ ser_text gap ind (snd kv') @ t')"
    by (simp add: member_text_def)
  then have k: "fst kv = fst kv'"
    and "'':'' @ ?sp @ ser_text gap ind (snd kv) @ t = '':'' @ ?sp @ ser_text gap ind (snd kv') @ t'"
    using json_quote_unique by blast+
  then have "ser_text gap ind (snd kv) @ t = ser_text gap ind (snd kv') @ t'" by simp
  with dec [OF assms(2)] assms(4,5) have "snd kv = snd kv'" and "t = t'" by simp_all
  with k show ?thesis by (simp add: prod_eq_iff)
qed

lemma ser_text_unique:
  "json_value v \<Longrightarrow> json_value w \<Longrightarrow> ser_text gap ind v @ r = ser_text gap ind w @ r'
   \<Longrightarrow> delim r \<Longrightarrow> delim r' \<Longrightarrow> v = w \<and> r = r'"
proof (induction v arbitrary: w ind r r')
  case JUndefined
  then show ?case by simp
next
  case JNull
  from same_kind [OF JNull.prems(1,2,3)] have "w = JNull"
    by (cases w) (simp_all split: if_splits)
  with JNull.prems(3) show ?case by (simp add: ser_text_simps)
next
  case (JBool b)
  from same_kind [OF JBool.prems(1,2,3)] have "w = JBool b"
    by (cases w) (simp_all split: if_splits)
  with JBool.prems(3) show ?case by simp
next
  case (JNum t)
  from same_kind [OF JNum.prems(1,2,3)] obtain t' where w: "w = JNum t'"
    by (cases w) (simp_all split: if_splits)
  with JNum.prems have nt: "number_text t" "number_text t'" by simp_all
  with JNum.prems(3) w have "t @ r = t' @ r'" by (simp add: ser_text_simps)
  with number_unique [OF nt JNum.prems(4,5)] w show ?case by simp
next
  case (JStr s)
  from same_kind [OF JStr.prems(1,2,3)] obtain s' where w: "w = JStr s'"
    by (cases w) (simp_all split: if_splits)
  with JStr.prems(3) have "json_quote s @ r = json_quote s' @ r'" by (simp add: ser_text_simps)
  with json_quote_unique w show ?case by blast
next
  case (JArr xs)
  from same_kind [OF JArr.prems(1,2,3)] obtain ys where w: "w = JArr ys"
    by (cases w) (simp_all split: if_splits)
  have "xs = ys \<and> r = r'"
  proof (rule wrapped_unique [where g = "ser_text gap (ind @ gap)" and Q = json_value
        and cc = "CHR '']''" and oc = "CHR ''[''" and gap = gap and ind = ind])
    show "x = y \<and> t = t'"
      if "x \<in> set xs" "json_value y" "ser_text gap (ind @ gap) x @ t = ser_text gap (ind @ gap) y @ t'"
        "delim t" "delim t'" for x y t t'
    proof -
      from that(1) JArr.prems(1) have "json_value x" by simp
      with that show ?thesis using JArr.IH by blast
    qed
    show "\<forall>y\<in>set ys. json_value y" using JArr.prems(2) w by simp
    show "\<forall>x\<in>set xs. \<exists>h t. ser_text gap (ind @ gap) x = h # t \<and> h \<noteq> CHR '']''"
      using JArr.prems(1) element_head by simp
    show "\<forall>y\<in>set ys. \<exists>h t. ser_text gap (ind @ gap) y = h # t \<and> h \<noteq> CHR '']''"
      using JArr.prems(2) w element_head by simp
    show "CHR '']'' \<in> {CHR '']'', CHR ''}''}" by simp
    show "wrap gap ind [CHR ''[''] [CHR '']''] (map (ser_text gap (ind @ gap)) xs) @ r
        = wrap gap ind [CHR ''[''] [CHR '']''] (map (ser_text gap (ind @ gap)) ys) @ r'"
      using JArr.prems(3) w by (simp add: ser_text_simps)
  qed
  with w show ?case by simp
next
  case (JObj ps)
  from same_kind [OF JObj.prems(1,2,3)] obtain qs where w: "w = JObj qs"
    by (cases w) (simp_all split: if_splits)
  have "ps = qs \<and> r = r'"
  proof (rule wrapped_unique [where g = "member_text gap (ind @ gap)" and Q = "\<lambda>kv. json_value (snd kv)"
        and cc = "CHR ''}''" and oc = "CHR ''{''" and gap = gap and ind = ind])
    show "kv = kv' \<and> t = t'"
      if "kv \<in> set ps" "json_value (snd kv')"
        "member_text gap (ind @ gap) kv @ t = member_text gap (ind @ gap) kv' @ t'"
        "delim t" "delim t'" for kv kv' t t'
    proof (rule member_text_unique [OF _ that(2,3,4,5)])
      fix u t1 t2
      assume u: "json_value u"
        and eq: "ser_text gap (ind @ gap) (snd kv) @ t1 = ser_text gap (ind @ gap) u @ t2"
        and d: "delim t1" "delim t2"
      from that(1) JObj.prems(1) have "json_value (snd kv)" by simp
      moreover have "snd kv \<in> Basic_BNFs.snds kv" by (cases kv) simp
      ultimately show "snd kv = u \<and> t1 = t2"
        using JObj.IH [OF that(1), of "snd kv" u "ind @ gap" t1 t2] u eq d by simp
    qed
    show "\<forall>kv\<in>set qs. json_value (snd kv)" using JObj.prems(2) w by simp
    show "\<forall>kv\<in>set ps. \<exists>h t. member_text gap (ind @ gap) kv = h # t \<and> h \<noteq> CHR ''}''"
      using member_text_head by simp
    show "\<forall>kv\<in>set qs. \<exists>h t. member_text gap (ind @ gap) kv = h # t \<and> h \<noteq> CHR ''}''"
      using member_text_head by simp
    show "CHR ''}'' \<in> {CHR '']'', CHR ''}''}" by simp
    show "wrap gap ind [CHR ''{''] [CHR ''}''] (map (member_text gap (ind @ gap)) ps) @ r
        = wrap gap ind [CHR ''{''] [CHR ''}''] (map (member_text gap (ind @ gap)) qs) @ r'"
      using JObj.prems(1,2,3) w by (simp add: ser_text_object)
  qed
  with w show ?case by simp
qed

lemma json_stringify_inj:
  assumes "json_value v" and "json_value w" and "json_stringify v = json_stringify w"
  shows "v = w"
proof -
  from assms have "ser_text [] [] v @ [] = ser_text [] [] w @ []"
    by (simp add: json_stringify_def ser_Some)
  with ser_text_unique [OF assms(1,2), of "[]" "[]" "[]" "[]"] show ?thesis
    by (simp add: delim_def)
qed

lemma json_stringify2_inj:
  assumes "json_value v" and "json_value w" and "json_stringify2 v = json_stringify2 w"
  shows "v = w"
proof -
  from assms have "ser_text ''  '' [] v @ [] = ser_text ''  '' [] w @ []"
    by (simp add: json_stringify2_def ser_Some)
  with ser_text_unique [OF assms(1,2), of "''  ''" "[]" "[]" "[]"] show ?thesis
    by (simp add: delim_def)
qed

section \<open>The request executor\<close>

text \<open>
  \<open>executeGraphQL\<close> sends exactly one request, whatever the outcome, and its result is
  the response handling applied to what \<open>fetch\<close> gave for that request.
\<close>

lemma executeGraphQL_eq:
  "executeGraphQL cfg remote q v log =
     (handle_response (remote log (graphql_request cfg q v)), log @ [graphql_request cfg q v])"
proof -
  let ?req = "graphql_request cfg q v"
  have send: "(let variables = default_param v (JObj []) in
        if isSessionCookie (accessToken cfg)
        then attemptGraphQLRequest cfg remote q variables (cookie_headers (accessToken cfg))
        else attemptGraphQLRequest cfg remote q variables (access_key_headers (accessToken cfg))) log
      = (remote log ?req, log @ [?req])"
    by (simp add: attemptGraphQLRequest_def graphql_request_def auth_headers_def Let_def)
  show ?thesis
  proof (cases "remote log ?req")
    case (Inl e)
    then show ?thesis
      unfolding executeGraphQL_def bind_io_def send by (simp add: handle_response_def)
  next
    case (Inr response)
    show ?thesis
    proof (cases "ok response")
      case False
      with Inr show ?thesis
        unfolding executeGraphQL_def bind_io_def send by (simp add: handle_response_def throw_io_def)
    next
      case True
      show ?thesis
      proof (cases "resp_json response")
        case (Inl e)
        with Inr True show ?thesis
          unfolding executeGraphQL_def bind_io_def send by (simp add: handle_response_def lift_io_def)
      next
        case data: (Inr data)
        show ?thesis
        proof (cases "object_keys data")
          case (Inl e)
          with Inr True data show ?thesis
            unfolding executeGraphQL_def bind_io_def send by (simp add: handle_response_def lift_io_def)
        next
          case keys: (Inr keys)
          then have "get_prop data ''errors'' = Inr (field data ''errors'')"
            and "get_prop data ''data'' = Inr (field data ''data'')"
            by (rule object_keys_Inr)+
          with Inr True data keys show ?thesis
            unfolding executeGraphQL_def bind_io_def send
            by (simp add: handle_response_def lift_io_def throw_io_def)
        qed
      qed
    qed
  qed
qed



lemma graphql_request_fields:
  "req_query (graphql_request cfg q v) = q"
  "req_variables (graphql_request cfg q (JObj ps)) = JObj ps"
  "req_headers (graphql_request cfg q v) = auth_headers (accessToken cfg)"
  "req_url (graphql_request cfg q v) = graphqlUrl cfg"
  "req_method (graphql_request cfg q v) = ''POST''"
  by (simp_all add: graphql_request_def default_param_def)

lemma isSessionCookie_iff:
  "isSessionCookie token \<longleftrightarrow>
     (\<exists>p s. token = p @ ''VelocitySession='' @ s) \<or> (\<exists>p s. token = p @ ''SecurityApiSession='' @ s)"
  unfolding isSessionCookie_def str_includes_iff ..

lemma cookie_token: "isSessionCookie ''VelocitySession=abc''"
  by (simp add: isSessionCookie_def)

lemma key_token: "\<not> isSessionCookie ''k-123''"
  by (simp add: isSessionCookie_def)

lemma show_nat_500: "show_nat 500 = ''500''"
  by code_simp

lemma json_stringify_array:
  "json_stringify (JArr xs) =
     Some (''['' @ join '','' (map (\<lambda>x. case json_stringify x of None \<Rightarrow> ''null'' | Some t \<Rightarrow> t) xs) @ '']'')"
  by (cases xs) (simp_all add: json_stringify_def wrap_def join_def)

lemma bad_field_truthy: "truthy bad_field_errors"
  by (simp add: bad_field_errors_def)

lemma bad_field_text:
  "interpolate (json_stringify bad_field_errors) = drop 16 bad_field_message"
  by code_simp

text \<open>
  C8. The request goes out with \<open>Content-Type: application/json\<close>, \<open>Accept: */*\<close> and the
  fixed \<open>User-Agent\<close>, and then with \<open>Cookie: credential\<close> when the credential contains
  \<open>VelocitySession=\<close> or \<open>SecurityApiSession=\<close> as a substring, with
  \<open>Authorization: UserAccessKey credential\<close> otherwise. The choice is a function of the
  credential string alone.
\<close>

theorem executeGraphQL_auth_headers:
  "snd (executeGraphQL cfg remote q v log) =
     log @ [\<lparr>req_url = graphqlUrl cfg, req_method = ''POST'',
             req_headers =
               (if (\<exists>p s. accessToken cfg = p @ ''VelocitySession='' @ s)
                   \<or> (\<exists>p s. accessToken cfg = p @ ''SecurityApiSession='' @ s)
                then [(''Content-Type'', ''application/json''), (''Accept'', ''*/*''),
                      (''User-Agent'', ''MCP-Velocity-Client/1.0.0''),
                      (''Cookie'', accessToken cfg)]
                else [(''Content-Type'', ''application/json''), (''Accept'', ''*/*''),
                      (''User-Agent'', ''MCP-Velocity-Client/1.0.0''),
                      (''Authorization'', ''UserAccessKey '' @ accessToken cfg)]),
             req_query = q,
             req_variables = (if v = JUndefined then JObj [] else v)\<rparr>]"
  unfolding executeGraphQL_eq graphql_request_def auth_headers_def isSessionCookie_iff
    cookie_headers_def access_key_headers_def default_param_def
  by simp

text \<open>The two modes on a session cookie and on an access key.\<close>

theorem executeGraphQL_auth_headers_witness:
  "map req_headers (snd (executeGraphQL cfg_cookie remote_data ''q'' (JObj []) [])) =
     [[(''Content-Type'', ''application/json''), (''Accept'', ''*/*''),
       (''User-Agent'', ''MCP-Velocity-Client/1.0.0''), (''Cookie'', ''VelocitySession=abc'')]]
   \<and> map req_headers (snd (executeGraphQL cfg_key remote_data ''q'' (JObj []) [])) =
     [[(''Content-Type'', ''application/json''), (''Accept'', ''*/*''),
       (''User-Agent'', ''MCP-Velocity-Client/1.0.0''), (''Authorization'', ''UserAccessKey k-123'')]]"
  using executeGraphQL_auth_headers [of cfg_cookie remote_data "''q''" "JObj []" "[]"]
    executeGraphQL_auth_headers [of cfg_key remote_data "''q''" "JObj []" "[]"]
    cookie_token key_token
  unfolding isSessionCookie_iff [symmetric]
  by (simp add: cfg_cookie_def cfg_key_def)

text \<open>
  C6. When the response has a status outside 200 to 299, the call fails with the error
  \<open>HTTP status: body text\<close>, which carries the status code and the raw body text. The
  parsed body, and so its \<open>errors\<close> field, has no part in the result.
\<close>

theorem executeGraphQL_non_2xx:
  assumes "remote log (graphql_request cfg q v) = Inr resp"
    and "resp_status resp < 200 \<or> 299 < resp_status resp"
  shows "executeGraphQL cfg remote q v log =
     (Inl (Error (''HTTP '' @ show_nat (resp_status resp) @ '': '' @ resp_text resp)),
      log @ [graphql_request cfg q v])"
  using assms unfolding executeGraphQL_eq by (auto simp: handle_response_def ok_def)

text \<open>A status 500 whose body holds an \<open>errors\<close> array is reported as the HTTP failure.\<close>

theorem executeGraphQL_non_2xx_witness:
  "executeGraphQL cfg_key remote_500 ''q'' (JObj []) [] =
     (Inl (Error ''HTTP 500: Internal Server Error''), [graphql_request cfg_key ''q'' (JObj [])])"
  using executeGraphQL_non_2xx [of remote_500 "[]" cfg_key "''q''" "JObj []"]
  by (simp add: remote_500_def show_nat_500)

text \<open>
  C5, as amended. When the response is 2xx and its JSON body is an object whose \<open>errors\<close>
  is a non-empty array, the call fails with an error whose message is the text
  \<open>GraphQL errors: \<close> followed by the JSON serialization of the whole array: every entry
  is serialized, in order, none is dropped. The failure carries this text, not the array
  as a value; the text determines the array (no other array of JSON values has it).
\<close>

theorem executeGraphQL_graphql_errors:
  assumes "remote log (graphql_request cfg q v) = Inr resp"
    and "200 \<le> resp_status resp" and "resp_status resp \<le> 299"
    and "resp_json resp = Inr (JObj body)"
    and "map_of body ''errors'' = Some (JArr (e # es))"
  shows "executeGraphQL cfg remote q v log =
     (Inl (Error (''GraphQL errors: ['' @
        join '','' (map (\<lambda>x. case json_stringify x of None \<Rightarrow> ''null'' | Some t \<Rightarrow> t) (e # es))
        @ '']'')),
      log @ [graphql_request cfg q v])
   \<and> (\<forall>es'. json_value (JArr (e # es)) \<longrightarrow> json_value (JArr es')
         \<longrightarrow> ''GraphQL errors: '' @ interpolate (json_stringify (JArr es'))
             = ''GraphQL errors: ['' @
                 join '','' (map (\<lambda>x. case json_stringify x of None \<Rightarrow> ''null'' | Some t \<Rightarrow> t) (e # es))
                 @ '']''
         \<longrightarrow> es' = e # es)"
proof (intro conjI allI impI)
  show "executeGraphQL cfg remote q v log =
     (Inl (Error (''GraphQL errors: ['' @
        join '','' (map (\<lambda>x. case json_stringify x of None \<Rightarrow> ''null'' | Some t \<Rightarrow> t) (e # es))
        @ '']'')),
      log @ [graphql_request cfg q v])"
    using assms unfolding executeGraphQL_eq
    by (simp add: handle_response_def ok_def field_def json_stringify_array interpolate_def)
next
  fix es'
  assume "json_value (JArr (e # es))" and "json_value (JArr es')"
    and "''GraphQL errors: '' @ interpolate (json_stringify (JArr es'))
             = ''GraphQL errors: ['' @
                 join '','' (map (\<lambda>x. case json_stringify x of None \<Rightarrow> ''null'' | Some t \<Rightarrow> t) (e # es))
                 @ '']''"
  then have "json_stringify (JArr es') = json_stringify (JArr (e # es))"
    by (simp add: json_stringify_array [of "e # es"] json_stringify_array [of es'] interpolate_def)
  with \<open>json_value (JArr es')\<close> \<open>json_value (JArr (e # es))\<close> have "JArr es' = JArr (e # es)"
    by (rule json_stringify_inj)
  then show "es' = e # es" by simp
qed

theorem executeGraphQL_graphql_errors_witness:
  "executeGraphQL cfg_key remote_bad_field ''q'' (JObj []) [] =
     (Inl (Error bad_field_message), [graphql_request cfg_key ''q'' (JObj [])])"
  using executeGraphQL_graphql_errors [of remote_bad_field "[]" cfg_key "''q''" "JObj []"
      "json_response 200 (JObj [(''errors'', bad_field_errors)])"
      "[(''errors'', bad_field_errors)]" "JObj [(''message'', JStr ''bad field'')]" "[]",
      THEN conjunct1]
    bad_field_text
  by (simp add: remote_bad_field_def json_response_def bad_field_errors_def bad_field_message_def
      json_stringify_array interpolate_def)

text \<open>
  C5 as stated fails: for \<open>errors\<close> equal to \<open>[{message: "bad field"}]\<close> the detail of the
  failure is the string \<open>bad_field_message\<close>, not the array.
\<close>

theorem executeGraphQL_errors_detail_counterexample:
  "map_sum detail id (fst (executeGraphQL cfg_key remote_bad_field ''q'' (JObj []) []))
     = Inl (JStr bad_field_message)
   \<and> map_sum detail id (fst (executeGraphQL cfg_key remote_bad_field ''q'' (JObj []) []))
     \<noteq> Inl (JArr [JObj [(''message'', JStr ''bad field'')]])"
  using bad_field_text bad_field_truthy
  by (simp add: executeGraphQL_eq handle_response_def ok_def field_def remote_bad_field_def
      json_response_def bad_field_message_def detail_def)

text \<open>
  C7, as amended. When the response is 2xx and its JSON body is not \<open>null\<close> and has no
  truthy \<open>errors\<close> (the field is absent, or is \<open>null\<close>, \<open>false\<close>, \<open>0\<close> or the empty
  string), the call succeeds and returns the body's \<open>data\<close> field (\<open>undefined\<close> when the
  body has none).
\<close>

theorem executeGraphQL_success:
  assumes "remote log (graphql_request cfg q v) = Inr resp"
    and "200 \<le> resp_status resp" and "resp_status resp \<le> 299"
    and "resp_json resp = Inr body"
    and "body \<noteq> JNull" and "body \<noteq> JUndefined"
    and "\<not> truthy (field body ''errors'')"
  shows "executeGraphQL cfg remote q v log = (Inr (field body ''data''), log @ [graphql_request cfg q v])"
proof -
  from assms(5,6) obtain keys where "object_keys body = Inr keys"
    by (cases body) auto
  with assms show ?thesis
    unfolding executeGraphQL_eq by (simp add: handle_response_def ok_def)
qed

theorem executeGraphQL_success_witness:
  "executeGraphQL cfg_key remote_data ''q'' (JObj []) [] =
     (Inr (JObj [(''pipelinesByTenantId'', JArr [])]), [graphql_request cfg_key ''q'' (JObj [])])"
  using executeGraphQL_success [of remote_data "[]" cfg_key "''q''" "JObj []"
      "json_response 200 (JObj [(''data'', JObj [(''pipelinesByTenantId'', JArr [])])])"
      "JObj [(''data'', JObj [(''pipelinesByTenantId'', JArr [])])]"]
  by (simp add: remote_data_def json_response_def field_def)

text \<open>
  C7 as stated fails: a 2xx body with data and an empty \<open>errors\<close> array is not a success;
  the empty array is truthy and the call fails with \<open>GraphQL errors: []\<close>.
\<close>

theorem executeGraphQL_empty_errors_counterexample:
  "resp_status (json_response 200 (JObj [(''data'', JObj [(''x'', JNum ''1'')]), (''errors'', JArr [])])) = 200
   \<and> field (JObj [(''data'', JObj [(''x'', JNum ''1'')]), (''errors'', JArr [])]) ''errors'' = JArr []
   \<and> fst (executeGraphQL cfg_key remote_empty_errors ''q'' (JObj []) []) = Inl (Error ''GraphQL errors: []'')
   \<and> fst (executeGraphQL cfg_key remote_empty_errors ''q'' (JObj []) []) \<noteq> Inr (JObj [(''x'', JNum ''1'')])"
  by (simp add: executeGraphQL_eq handle_response_def ok_def field_def remote_empty_errors_def
      json_response_def json_stringify_array join_def interpolate_def)

section \<open>The gate provisioner\<close>

lemma get_prop_field: "get_prop x p = Inr t \<Longrightarrow> field x p = t"
  by (simp add: field_def)

lemma get_prop_defined: "x \<noteq> JUndefined \<Longrightarrow> x \<noteq> JNull \<Longrightarrow> get_prop x p = Inr (field x p)"
  by (cases x) (simp_all add: field_def)

text \<open>The reads written with \<open>field\<close> in \<open>create_rule\<close> follow a truthiness test.\<close>

lemma truthy_get_prop: "truthy v \<Longrightarrow> get_prop v p = Inr (field v p)"
  by (cases v) (simp_all add: field_def)

lemma filter_user_Inr: "filter_user xs = Inr ys \<Longrightarrow> ys = filter is_user xs"
proof (induction xs arbitrary: ys)
  case Nil
  then show ?case by simp
next
  case (Cons x xs)
  from Cons.prems obtain t kept where t: "get_prop x ''type'' = Inr t"
    and kept: "filter_user xs = Inr kept"
    and ys: "ys = (if t = JStr ''user'' then x # kept else kept)"
    by (auto split: sum.splits)
  from kept have "kept = filter is_user xs" by (rule Cons.IH)
  moreover from t have "is_user x \<longleftrightarrow> t = JStr ''user''"
    by (auto simp: is_user_def dest: get_prop_field)
  ultimately show ?case using ys by simp
qed

lemma filter_user_defined:
  "\<forall>x\<in>set xs. x \<noteq> JUndefined \<and> x \<noteq> JNull \<Longrightarrow> filter_user xs = Inr (filter is_user xs)"
proof (induction xs)
  case Nil
  then show ?case by simp
next
  case (Cons x xs)
  then have "get_prop x ''type'' = Inr (field x ''type'')" and "filter_user xs = Inr (filter is_user xs)"
    by (simp_all add: get_prop_defined)
  moreover have "is_user x \<longleftrightarrow> field x ''type'' = JStr ''user''"
    by (simp add: is_user_def)
  ultimately show ?case by simp
qed

lemma create_rule_eq:
  "create_rule cfg remote a =
     (case rule_request a of Inl e \<Rightarrow> throw_io e | Inr call \<Rightarrow> submit_rule cfg remote call)"
  unfolding create_rule_def rule_request_def submit_rule_def
  by (simp add: bind_lift_Inl bind_lift_Inr split: sum.splits)

lemma submit_rule_eq:
  "submit_rule cfg remote (doc, vars, fld) log =
     ((case handle_response (remote log (graphql_request cfg doc vars)) of
         Inl e \<Rightarrow> Inl e
       | Inr result \<Rightarrow> (case get_prop result fld of Inl e \<Rightarrow> Inl e | Inr rule \<Rightarrow> get_prop rule ''_id'')),
      log @ [graphql_request cfg doc vars])"
  by (simp add: submit_rule_def bind_io_def lift_io_def executeGraphQL_eq split: sum.splits)

lemma rule_docs_not_upsert:
  "AddManualVersionSignOffRule_doc \<noteq> UpsertPipelineGate_doc"
  "AddAutomatedMetricRule_doc \<noteq> UpsertPipelineGate_doc"
  "AddComplianceRule_doc \<noteq> UpsertPipelineGate_doc"
  "AddStatusRule_doc \<noteq> UpsertPipelineGate_doc"
  by (simp_all add: AddManualVersionSignOffRule_doc_def AddAutomatedMetricRule_doc_def
      AddComplianceRule_doc_def AddStatusRule_doc_def UpsertPipelineGate_doc_def join_def)

lemma rule_request_doc:
  "rule_request a = Inr (doc, vars, fld) \<Longrightarrow> doc \<noteq> UpsertPipelineGate_doc"
  using rule_docs_not_upsert
  by (auto simp: rule_request_def split: if_splits sum.splits)

lemma rule_request_error:
  assumes "rule_request a = Inl e"
    and "\<forall>x\<in>set (array_elements (manualApprovers a)). x \<noteq> JUndefined \<and> x \<noteq> JNull"
  shows "e \<in> set validation_errors"
  using assms
  by (auto simp: rule_request_def validation_errors_def filter_user_defined split: if_splits)


lemma invalid_rule_request: "gate_spec_invalid a \<Longrightarrow> \<exists>e. rule_request a = Inl e"
proof -
  assume inv: "gate_spec_invalid a"
  have undefined_falsy: "\<And>v. v = JUndefined \<Longrightarrow> \<not> truthy v" by simp
  show ?thesis
  proof (cases "gateType a = JStr ''manual''")
    case True
    show ?thesis
    proof (cases "filter_user (array_elements (manualApprovers a))")
      case (Inl e)
      with True show ?thesis by (simp add: rule_request_def)
    next
      case (Inr ys)
      then have ys: "ys = filter is_user (array_elements (manualApprovers a))"
        by (rule filter_user_Inr)
      from inv True have "blank_name (gateName a) \<or> ys = []"
        by (simp add: gate_spec_invalid_def ys)
      then show ?thesis
      proof
        assume "blank_name (gateName a)"
        then have "not_string_or_blank (gateName a)" by (cases "gateName a") simp_all
        with True show ?thesis by (simp add: rule_request_def)
      next
        assume "ys = []"
        with True Inr show ?thesis by (simp add: rule_request_def)
      qed
    qed
  next
    case False
    with inv show ?thesis
      by (auto simp: gate_spec_invalid_def rule_request_def split: if_splits)
  qed
qed

lemma try_throw:
  "rule_request a = Inl e \<Longrightarrow> add_pipeline_gate_try cfg remote a log = (Inl e, log)"
  by (simp add: add_pipeline_gate_try_def create_rule_eq bind_io_def throw_io_def)

lemma gate_catch:
  "add_pipeline_gate_try cfg remote a log = (Inl e, log') \<Longrightarrow>
   add_pipeline_gate cfg remote a log = (Inr (text_result (''Error adding gate: '' @ message e)), log')"
  by (simp add: add_pipeline_gate_def try_catch_def return_io_def)

lemma gate_no_catch:
  "add_pipeline_gate_try cfg remote a log = (Inr r, log') \<Longrightarrow>
   add_pipeline_gate cfg remote a log = (Inr r, log')"
  by (simp add: add_pipeline_gate_def try_catch_def)

text \<open>
  C1. A gate request that fails the validation of the specification ends in the
  \<open>catch\<close> of the handler and sends no request: the \<open>try\<close> block throws an error \<open>e\<close>
  with the log of requests unchanged, and the handler answers with the text
  \<open>Error adding gate: \<close> followed by the message of \<open>e\<close>. When the approver entries are
  objects, as the input schema requires, \<open>e\<close> is one of the errors thrown by the checks.
\<close>

theorem add_pipeline_gate_validation:
  assumes "gate_spec_invalid a"
  shows "\<exists>e. add_pipeline_gate_try cfg remote a log = (Inl e, log)
     \<and> add_pipeline_gate cfg remote a log = (Inr (text_result (''Error adding gate: '' @ message e)), log)
     \<and> ((\<forall>x\<in>set (array_elements (manualApprovers a)). x \<noteq> JUndefined \<and> x \<noteq> JNull)
          \<longrightarrow> e \<in> set validation_errors)"
proof -
  from assms obtain e where e: "rule_request a = Inl e"
    using invalid_rule_request by blast
  then have "add_pipeline_gate_try cfg remote a log = (Inl e, log)" by (rule try_throw)
  moreover from this
  have "add_pipeline_gate cfg remote a log = (Inr (text_result (''Error adding gate: '' @ message e)), log)"
    by (rule gate_catch)
  moreover have "(\<forall>x\<in>set (array_elements (manualApprovers a)). x \<noteq> JUndefined \<and> x \<noteq> JNull)
          \<longrightarrow> e \<in> set validation_errors"
    using e rule_request_error by blast
  ultimately show ?thesis by blast
qed

lemma group_only_invalid: "gate_spec_invalid group_only_args"
  by (simp add: gate_spec_invalid_def group_only_args_def manual_args_def is_user_def field_def
      group_g1_def)

lemma nbsp_invalid: "gate_spec_invalid nbsp_args"
  by (simp add: gate_spec_invalid_def nbsp_args_def manual_args_def trim_def is_space_def)

text \<open>
  A manual gate whose only approver is a group, and one whose name is a no-break space:
  the error text, and no request.
\<close>

theorem add_pipeline_gate_validation_witness:
  "add_pipeline_gate cfg_key remote_gate group_only_args [] =
     (Inr [TextItem ''Error adding gate: At least one manual approver of type 'user' is required for manual gate''], [])
   \<and> add_pipeline_gate cfg_key remote_gate nbsp_args [] =
     (Inr [TextItem ''Error adding gate: gateName (rule name) is required for manual gate and must be a non-empty string''], [])"
proof -
  have "rule_request group_only_args =
      Inl (Error ''At least one manual approver of type 'user' is required for manual gate'')"
    by (simp add: rule_request_def group_only_args_def manual_args_def group_g1_def trim_def is_space_def)
  then have group: "add_pipeline_gate_try cfg_key remote_gate group_only_args [] =
      (Inl (Error ''At least one manual approver of type 'user' is required for manual gate''), [])"
    by (rule try_throw)
  have "rule_request nbsp_args =
      Inl (Error ''gateName (rule name) is required for manual gate and must be a non-empty string'')"
    by (simp add: rule_request_def nbsp_args_def manual_args_def trim_def is_space_def)
  then have nbsp: "add_pipeline_gate_try cfg_key remote_gate nbsp_args [] =
      (Inl (Error ''gateName (rule name) is required for manual gate and must be a non-empty string''), [])"
    by (rule try_throw)
  from group add_pipeline_gate_validation [OF group_only_invalid, of cfg_key remote_gate "[]"]
    nbsp add_pipeline_gate_validation [OF nbsp_invalid, of cfg_key remote_gate "[]"]
  show ?thesis by (auto simp: text_result_def)
qed

text \<open>
  C2. When the checks pass with the mutation \<open>doc\<close> and the variables \<open>vars\<close> and the
  executor call for them fails with \<open>e\<close>, the \<open>try\<close> block fails with the same \<open>e\<close>, the
  one request sent is that of the rule, which is not the attach mutation, and the handler
  reports the message of \<open>e\<close>.
\<close>

theorem add_pipeline_gate_create_failure:
  assumes "rule_request a = Inr (doc, vars, fld)"
    and "executeGraphQL cfg remote doc vars log = (Inl e, log1)"
  shows "add_pipeline_gate_try cfg remote a log = (Inl e, log1)
     \<and> log1 = log @ [graphql_request cfg doc vars]
     \<and> doc \<noteq> UpsertPipelineGate_doc
     \<and> add_pipeline_gate cfg remote a log = (Inr (text_result (''Error adding gate: '' @ message e)), log1)"
proof -
  from assms(2) have log1: "log1 = log @ [graphql_request cfg doc vars]"
    by (simp add: executeGraphQL_eq)
  from assms have run: "add_pipeline_gate_try cfg remote a log = (Inl e, log1)"
    by (simp add: add_pipeline_gate_try_def create_rule_eq submit_rule_def bind_io_def)
  from assms(1) have "doc \<noteq> UpsertPipelineGate_doc" by (rule rule_request_doc)
  with run log1 gate_catch [OF run] show ?thesis by simp
qed


lemma manual_args_request:
  "rule_request manual_args =
     Inr (AddManualVersionSignOffRule_doc,
          JObj [(''input'', JObj [(''name'', JStr ''Approval''), (''pipelineId'', JStr ''p1''),
                                  (''approvers'', JArr [user_u1])])],
          ''addManualVersionSignOffRule'')"
  by (simp add: rule_request_def manual_args_def user_u1_def group_g1_def trim_def is_space_def)

text \<open>The service answers the rule mutation with a GraphQL error; no second request.\<close>

theorem add_pipeline_gate_create_failure_witness:
  "add_pipeline_gate cfg_key remote_bad_field manual_args [] =
     (Inr [TextItem (''Error adding gate: '' @ bad_field_message)],
      [graphql_request cfg_key AddManualVersionSignOffRule_doc
         (JObj [(''input'', JObj [(''name'', JStr ''Approval''), (''pipelineId'', JStr ''p1''),
                                  (''approvers'', JArr [user_u1])])])])"
proof -
  let ?vars = "JObj [(''input'', JObj [(''name'', JStr ''Approval''), (''pipelineId'', JStr ''p1''),
                                      (''approvers'', JArr [user_u1])])]"
  have "executeGraphQL cfg_key remote_bad_field AddManualVersionSignOffRule_doc ?vars [] =
      (Inl (Error bad_field_message), [graphql_request cfg_key AddManualVersionSignOffRule_doc ?vars])"
    using bad_field_text bad_field_truthy
    by (simp add: executeGraphQL_eq handle_response_def ok_def field_def remote_bad_field_def
        json_response_def bad_field_message_def)
  from add_pipeline_gate_create_failure [OF manual_args_request this]
  show ?thesis by (simp add: text_result_def)
qed

lemma create_rule_log:
  assumes "create_rule cfg remote a log = (Inr r, log1)"
  shows "\<exists>doc vars. log1 = log @ [graphql_request cfg doc vars] \<and> doc \<noteq> UpsertPipelineGate_doc"
proof (cases "rule_request a")
  case (Inl e)
  with assms show ?thesis by (simp add: create_rule_eq throw_io_def)
next
  case (Inr call)
  obtain doc vars fld where call: "call = (doc, vars, fld)" by (cases call)
  with Inr assms have "log1 = log @ [graphql_request cfg doc vars]"
    by (simp add: create_rule_eq submit_rule_eq)
  moreover from Inr call have "doc \<noteq> UpsertPipelineGate_doc" by (simp add: rule_request_doc)
  ultimately show ?thesis by blast
qed

lemma try_attach:
  assumes "create_rule cfg remote a log = (Inr r, log1)"
  shows "add_pipeline_gate_try cfg remote a log =
     (case executeGraphQL cfg remote UpsertPipelineGate_doc (upsertVars a r) log1 of
        (Inl e, log2) \<Rightarrow> (Inl e, log2)
      | (Inr upsertResult, log2) \<Rightarrow>
          (case get_prop upsertResult ''upsertPipelineGate'' of
             Inl e \<Rightarrow> (Inl e, log2)
           | Inr gate \<Rightarrow> (Inr (text_result
               (''Gate added to pipeline stage: '' @ interpolate (json_stringify2 gate))), log2)))"
  using assms
  by (simp add: add_pipeline_gate_try_def bind_io_def lift_io_def return_io_def
      split: prod.splits sum.splits)

lemma gate_log: "snd (add_pipeline_gate cfg remote a log) = snd (add_pipeline_gate_try cfg remote a log)"
  by (simp add: add_pipeline_gate_def try_catch_def return_io_def split: prod.splits sum.splits)

text \<open>The handler, by the outcome of step 1 and of the attach call.\<close>

lemma add_pipeline_gate_answer:
  "add_pipeline_gate cfg remote a log =
       (case create_rule cfg remote a log of
          (Inl e, log1) \<Rightarrow> (Inr [TextItem (''Error adding gate: '' @ message e)], log1)
        | (Inr ruleId, log1) \<Rightarrow>
            text_answer ''Gate added to pipeline stage: '' ''Error adding gate: '' ''upsertPipelineGate''
              (executeGraphQL cfg remote UpsertPipelineGate_doc (upsertVars a ruleId) log1))"
  by (simp add: add_pipeline_gate_def add_pipeline_gate_try_def text_answer_def try_catch_def
      bind_io_def lift_io_def return_io_def text_result_def split: prod.splits sum.splits)

text \<open>
  C3, as amended. When step 1 gives the rule identifier \<open>r\<close>, it has sent one request,
  which is not the attach mutation; the handler then sends the attach mutation exactly
  once, with \<open>ruleIds = [r]\<close> and the \<open>pipelineId\<close>, \<open>stageId\<close> and
  \<open>manualGateNotification\<close> of the invocation. When that call succeeds and the property
  \<open>upsertPipelineGate\<close> of its result can be read, the handler answers with the text
  \<open>Gate added to pipeline stage: \<close> followed by \<open>JSON.stringify(gate, null, 2)\<close> of that
  property; when the read throws (the result is \<open>null\<close> or \<open>undefined\<close>), it answers with
  the error text. The answer is a text, not the gate as a value; the text determines the
  gate (no other JSON value has it).
\<close>

theorem add_pipeline_gate_attach:
  assumes "create_rule cfg remote a log = (Inr r, log1)"
  shows "(\<exists>doc vars. log1 = log @ [graphql_request cfg doc vars] \<and> doc \<noteq> UpsertPipelineGate_doc)
     \<and> snd (add_pipeline_gate cfg remote a log) =
         log1 @ [graphql_request cfg UpsertPipelineGate_doc
                   (JObj [(''pipelineId'', pipelineId a), (''stageId'', stageId a),
                          (''ruleIds'', JArr [r]),
                          (''manualGateNotification'', manualGateNotification a)])]
     \<and> (\<forall>upsertResult gate log2.
           executeGraphQL cfg remote UpsertPipelineGate_doc
             (JObj [(''pipelineId'', pipelineId a), (''stageId'', stageId a),
                    (''ruleIds'', JArr [r]),
                    (''manualGateNotification'', manualGateNotification a)]) log1
             = (Inr upsertResult, log2)
           \<longrightarrow> get_prop upsertResult ''upsertPipelineGate'' = Inr gate
           \<longrightarrow> add_pipeline_gate cfg remote a log =
                 (Inr (text_result (''Gate added to pipeline stage: ''
                                     @ interpolate (json_stringify2 gate))), log2))
     \<and> (\<forall>upsertResult e log2.
           executeGraphQL cfg remote UpsertPipelineGate_doc
             (JObj [(''pipelineId'', pipelineId a), (''stageId'', stageId a),
                    (''ruleIds'', JArr [r]),
                    (''manualGateNotification'', manualGateNotification a)]) log1
             = (Inr upsertResult, log2)
           \<longrightarrow> get_prop upsertResult ''upsertPipelineGate'' = Inl e
           \<longrightarrow> add_pipeline_gate cfg remote a log =
                 (Inr (text_result (''Error adding gate: '' @ message e)), log2))
     \<and> (\<forall>g g'. json_value g \<longrightarrow> json_value g'
           \<longrightarrow> ''Gate added to pipeline stage: '' @ interpolate (json_stringify2 g)
               = ''Gate added to pipeline stage: '' @ interpolate (json_stringify2 g')
           \<longrightarrow> g = g')"
proof (intro conjI allI impI)
  show "\<exists>doc vars. log1 = log @ [graphql_request cfg doc vars] \<and> doc \<noteq> UpsertPipelineGate_doc"
    using assms by (rule create_rule_log)
next
  show "snd (add_pipeline_gate cfg remote a log) =
         log1 @ [graphql_request cfg UpsertPipelineGate_doc
                   (JObj [(''pipelineId'', pipelineId a), (''stageId'', stageId a),
                          (''ruleIds'', JArr [r]),
                          (''manualGateNotification'', manualGateNotification a)])]"
    unfolding gate_log try_attach [OF assms]
    by (simp add: executeGraphQL_eq upsertVars_def split: sum.splits)
next
  fix upsertResult gate log2
  assume "executeGraphQL cfg remote UpsertPipelineGate_doc
             (JObj [(''pipelineId'', pipelineId a), (''stageId'', stageId a),
                    (''ruleIds'', JArr [r]),
                    (''manualGateNotification'', manualGateNotification a)]) log1
             = (Inr upsertResult, log2)"
    and "get_prop upsertResult ''upsertPipelineGate'' = Inr gate"
  then have "add_pipeline_gate_try cfg remote a log =
      (Inr (text_result (''Gate added to pipeline stage: '' @ interpolate (json_stringify2 gate))), log2)"
    unfolding try_attach [OF assms] by (simp add: upsertVars_def)
  then show "add_pipeline_gate cfg remote a log =
      (Inr (text_result (''Gate added to pipeline stage: '' @ interpolate (json_stringify2 gate))), log2)"
    by (rule gate_no_catch)
next
  fix upsertResult e log2
  assume "executeGraphQL cfg remote UpsertPipelineGate_doc
             (JObj [(''pipelineId'', pipelineId a), (''stageId'', stageId a),
                    (''ruleIds'', JArr [r]),
                    (''manualGateNotification'', manualGateNotification a)]) log1
             = (Inr upsertResult, log2)"
    and "get_prop upsertResult ''upsertPipelineGate'' = Inl e"
  then have "add_pipeline_gate_try cfg remote a log = (Inl e, log2)"
    unfolding try_attach [OF assms] by (simp add: upsertVars_def)
  then show "add_pipeline_gate cfg remote a log =
      (Inr (text_result (''Error adding gate: '' @ message e)), log2)"
    by (rule gate_catch)
next
  fix g g'
  assume g: "json_value g" "json_value g'"
    and "''Gate added to pipeline stage: '' @ interpolate (json_stringify2 g)
               = ''Gate added to pipeline stage: '' @ interpolate (json_stringify2 g')"
  then have "json_stringify2 g = json_stringify2 g'"
    by (simp add: json_stringify2_def ser_Some interpolate_def)
  with g show "g = g'" by (rule json_stringify2_inj)
qed

lemma attached_gate_rendering: "interpolate (json_stringify2 attached_gate) = attached_gate_text"
  by code_simp

lemma manual_args_create:
  "create_rule cfg_key remote_gate manual_args [] =
     (Inr (JStr ''r1''),
      [graphql_request cfg_key AddManualVersionSignOffRule_doc
         (JObj [(''input'', JObj [(''name'', JStr ''Approval''), (''pipelineId'', JStr ''p1''),
                                  (''approvers'', JArr [user_u1])])])])"
  by (simp add: create_rule_eq manual_args_request submit_rule_eq remote_gate_def
      handle_response_def ok_def json_response_def field_def)

text \<open>Rule \<open>r1\<close> is created, then attached; the answer renders the gate as it came.\<close>

theorem add_pipeline_gate_attach_witness:
  "add_pipeline_gate cfg_key remote_gate manual_args [] =
     (Inr [TextItem (''Gate added to pipeline stage: '' @ attached_gate_text)],
      [graphql_request cfg_key AddManualVersionSignOffRule_doc
         (JObj [(''input'', JObj [(''name'', JStr ''Approval''), (''pipelineId'', JStr ''p1''),
                                  (''approvers'', JArr [user_u1])])]),
       graphql_request cfg_key UpsertPipelineGate_doc
         (JObj [(''pipelineId'', JStr ''p1''), (''stageId'', JStr ''s1''),
                (''ruleIds'', JArr [JStr ''r1'']), (''manualGateNotification'', JBool True)])])"
proof -
  let ?create = "graphql_request cfg_key AddManualVersionSignOffRule_doc
         (JObj [(''input'', JObj [(''name'', JStr ''Approval''), (''pipelineId'', JStr ''p1''),
                                  (''approvers'', JArr [user_u1])])])"
  let ?vars = "JObj [(''pipelineId'', pipelineId manual_args), (''stageId'', stageId manual_args),
                (''ruleIds'', JArr [JStr ''r1'']),
                (''manualGateNotification'', manualGateNotification manual_args)]"
  have attach: "executeGraphQL cfg_key remote_gate UpsertPipelineGate_doc ?vars [?create] =
      (Inr (JObj [(''upsertPipelineGate'', attached_gate)]),
       [?create, graphql_request cfg_key UpsertPipelineGate_doc ?vars])"
    by (simp add: executeGraphQL_eq remote_gate_def handle_response_def ok_def json_response_def
        field_def)
  have gate: "get_prop (JObj [(''upsertPipelineGate'', attached_gate)]) ''upsertPipelineGate''
      = Inr attached_gate"
    by simp
  from add_pipeline_gate_attach [OF manual_args_create, THEN conjunct2, THEN conjunct2,
      THEN conjunct1] attach gate
  have "add_pipeline_gate cfg_key remote_gate manual_args [] =
      (Inr (text_result (''Gate added to pipeline stage: ''
                          @ interpolate (json_stringify2 attached_gate))),
       [?create, graphql_request cfg_key UpsertPipelineGate_doc ?vars])"
    by blast
  then show ?thesis
    by (simp add: attached_gate_rendering text_result_def manual_args_def)
qed

text \<open>
  C3 as stated fails: in the run of the witness the handler returns the text item, which
  is not the gate the service sent.
\<close>

theorem add_pipeline_gate_output_counterexample:
  "map_sum id js_of_result (fst (add_pipeline_gate cfg_key remote_gate manual_args [])) =
     Inr (JObj [(''content'', JArr [JObj [(''type'', JStr ''text''),
        (''text'', JStr (''Gate added to pipeline stage: '' @ attached_gate_text))]])])
   \<and> map_sum id js_of_result (fst (add_pipeline_gate cfg_key remote_gate manual_args []))
     \<noteq> Inr attached_gate"
proof -
  have "executeGraphQL cfg_key remote_gate UpsertPipelineGate_doc (upsertVars manual_args (JStr ''r1''))
      [graphql_request cfg_key AddManualVersionSignOffRule_doc
         (JObj [(''input'', JObj [(''name'', JStr ''Approval''), (''pipelineId'', JStr ''p1''),
                                  (''approvers'', JArr [user_u1])])])]
      = (Inr (JObj [(''upsertPipelineGate'', attached_gate)]),
         [graphql_request cfg_key AddManualVersionSignOffRule_doc
           (JObj [(''input'', JObj [(''name'', JStr ''Approval''), (''pipelineId'', JStr ''p1''),
                                    (''approvers'', JArr [user_u1])])]),
          graphql_request cfg_key UpsertPipelineGate_doc (upsertVars manual_args (JStr ''r1''))])"
    by (simp add: executeGraphQL_eq remote_gate_def handle_response_def ok_def json_response_def
        field_def)
  then have "fst (add_pipeline_gate cfg_key remote_gate manual_args []) =
      Inr [TextItem (''Gate added to pipeline stage: '' @ attached_gate_text)]"
    by (simp add: add_pipeline_gate_answer manual_args_create text_answer_def
        attached_gate_rendering)
  then show ?thesis
    by (simp add: js_of_result_def attached_gate_def)
qed

lemma try_log_cases:
  assumes "rule_request a = Inr (doc, vars, fld)"
  shows "\<exists>rest. snd (add_pipeline_gate_try cfg remote a log) = log @ graphql_request cfg doc vars # rest
     \<and> (\<forall>r\<in>set rest. req_query r = UpsertPipelineGate_doc \<and> (\<exists>ruleId. req_variables r = upsertVars a ruleId))"
proof (cases "fst (submit_rule cfg remote (doc, vars, fld) log)")
  case (Inl e)
  then have "create_rule cfg remote a log = (Inl e, log @ [graphql_request cfg doc vars])"
    using assms by (simp add: create_rule_eq submit_rule_eq)
  then have "snd (add_pipeline_gate_try cfg remote a log) = log @ [graphql_request cfg doc vars]"
    by (simp add: add_pipeline_gate_try_def bind_io_def)
  then show ?thesis by simp
next
  case (Inr r)
  then have "create_rule cfg remote a log = (Inr r, log @ [graphql_request cfg doc vars])"
    using assms by (simp add: create_rule_eq submit_rule_eq)
  then have "snd (add_pipeline_gate_try cfg remote a log) =
      log @ [graphql_request cfg doc vars, graphql_request cfg UpsertPipelineGate_doc (upsertVars a r)]"
    by (simp add: try_attach executeGraphQL_eq split: sum.splits)
  then show ?thesis by (auto simp: graphql_request_def upsertVars_def default_param_def)
qed

text \<open>
  C4. For a manual gate whose approvers contain an entry of kind \<open>user\<close> (the entries
  being objects): when the gate name is not a string or is blank, nothing is sent;
  otherwise the first request is the rule mutation, and its \<open>approvers\<close> are exactly the
  entries of kind \<open>user\<close> of the supplied list, in order. Any further request is the
  attach mutation with the variables of step 2, which hold no approver.
\<close>

theorem add_pipeline_gate_user_approvers:
  assumes "gateType a = JStr ''manual''"
    and "manualApprovers a = JArr xs"
    and "\<forall>x\<in>set xs. x \<noteq> JUndefined \<and> x \<noteq> JNull"
    and "\<exists>x\<in>set xs. field x ''type'' = JStr ''user''"
  shows "if not_string_or_blank (gateName a)
     then snd (add_pipeline_gate cfg remote a log) = log
     else \<exists>rest. snd (add_pipeline_gate cfg remote a log) =
            log @ graphql_request cfg AddManualVersionSignOffRule_doc
                    (JObj [(''input'', JObj
                       [(''name'', gateName a),
                        (''pipelineId'', pipelineId a),
                        (''approvers'', JArr (filter (\<lambda>x. field x ''type'' = JStr ''user'') xs))])])
                  # rest
          \<and> (\<forall>r\<in>set rest. req_query r = UpsertPipelineGate_doc
                \<and> (\<exists>ruleId. req_variables r = upsertVars a ruleId))"
proof (cases "not_string_or_blank (gateName a)")
  case True
  with assms(1) have "rule_request a = Inl (Error
      ''gateName (rule name) is required for manual gate and must be a non-empty string'')"
    by (simp add: rule_request_def)
  then have "snd (add_pipeline_gate cfg remote a log) = log"
    by (simp add: gate_log try_throw)
  with True show ?thesis by simp
next
  case False
  then have name: "truthy (gateName a)" by (cases "gateName a") (auto simp: trim_def)
  from assms(4) have some: "filter is_user xs \<noteq> []" "xs \<noteq> []"
    by (auto simp: is_user_def filter_empty_conv)
  from assms(3) have "filter_user xs = Inr (filter is_user xs)" by (rule filter_user_defined)
  with False name some assms(1,2)
  have "rule_request a = Inr (AddManualVersionSignOffRule_doc,
      JObj [(''input'', JObj [(''name'', gateName a), (''pipelineId'', pipelineId a),
                              (''approvers'', JArr (filter is_user xs))])],
      ''addManualVersionSignOffRule'')"
    by (simp add: rule_request_def)
  from try_log_cases [OF this, of cfg remote log] False show ?thesis
    by (simp add: gate_log is_user_def [abs_def])
qed

text \<open>Of a user and a group, only the user is in the payload.\<close>

theorem add_pipeline_gate_user_approvers_witness:
  "take 1 (snd (add_pipeline_gate cfg_key remote_gate manual_args [])) =
     [graphql_request cfg_key AddManualVersionSignOffRule_doc
        (JObj [(''input'', JObj [(''name'', JStr ''Approval''), (''pipelineId'', JStr ''p1''),
                                 (''approvers'', JArr [user_u1])])])]"
  using add_pipeline_gate_user_approvers [of manual_args "[user_u1, group_g1]" cfg_key remote_gate "[]"]
  by (auto simp: manual_args_def user_u1_def group_g1_def field_def trim_def is_space_def)

lemma simple_tool_log:
  assumes "H = try_catch
      (bind_io m (\<lambda>result. bind_io (lift_io (get_prop result fld))
         (\<lambda>found. return_io (text_result (okp @ interpolate (json_stringify2 found))))))
      (\<lambda>error. return_io (text_result (errp @ message error)))"
  shows "snd (H log) = snd (m log)"
  by (simp add: assms try_catch_def bind_io_def lift_io_def return_io_def
      split: prod.splits sum.splits)

lemma simple_tool_answer:
  assumes "H = try_catch
      (bind_io m (\<lambda>result. bind_io (lift_io (get_prop result fld))
         (\<lambda>found. return_io (text_result (okp @ interpolate (json_stringify2 found))))))
      (\<lambda>error. return_io (text_result (errp @ message error)))"
  shows "H log = text_answer okp errp fld (m log)"
  by (simp add: assms text_answer_def try_catch_def bind_io_def lift_io_def return_io_def
      text_result_def split: prod.splits sum.splits)

lemma text_answer_text: "\<exists>t. fst (text_answer okp errp fld outcome) = Inr [TextItem t]"
  by (simp add: text_answer_def split: prod.splits sum.splits)

lemma upload_issue_data_answer:
  "upload_issue_data cfg remote source trackerId baseUrl issues log =
       (case normalized_issues issues of
          Inl e \<Rightarrow> (Inr [TextItem (''Error uploading issue data: '' @ message e)], log)
        | Inr normalized \<Rightarrow>
            text_answer ''Issue data uploaded: '' ''Error uploading issue data: '' ''uploadIssueData''
              (executeGraphQL cfg remote UploadIssueData_doc
                 (JObj [(''data'', JObj
                    [(''source'', source),
                     (''trackerId'', trackerId),
                     (''tenantId'', JStr (tenantId cfg)),
                     (''baseUrl'', baseUrl),
                     (''issues'', normalized)])]) log))"
  by (simp add: upload_issue_data_def text_answer_def try_catch_def bind_io_def lift_io_def
      return_io_def text_result_def split: prod.splits sum.splits)

lemma upload_issue_data_text:
  "\<exists>t. fst (upload_issue_data cfg remote source trackerId baseUrl issues log) = Inr [TextItem t]"
  unfolding upload_issue_data_answer using text_answer_text by (simp split: sum.splits)

lemma test_graphql_connection_answer:
  "test_graphql_connection cfg remote log =
       (case executeGraphQL cfg remote TestConnection_doc (JObj []) log of
          (Inl e, log') \<Rightarrow> (Inr [TextItem (''GraphQL connection test failed: '' @ message e)], log')
        | (Inr result, log') \<Rightarrow>
            (case schema_types_length result of
               Inl e \<Rightarrow> (Inr [TextItem (''GraphQL connection test failed: '' @ message e)], log')
             | Inr count \<Rightarrow>
                 (Inr [TextItem (''GraphQL connection test successful: Found '' @ count
                                  @ '' schema types'')], log')))"
  by (simp add: test_graphql_connection_def try_catch_def bind_io_def lift_io_def
      return_io_def text_result_def split: prod.splits sum.splits)

lemma test_graphql_connection_text:
  "\<exists>t. fst (test_graphql_connection cfg remote log) = Inr [TextItem t]"
  unfolding test_graphql_connection_answer by (simp split: prod.splits sum.splits)

lemma add_pipeline_gate_text:
  "\<exists>t. fst (add_pipeline_gate cfg remote a log) = Inr [TextItem t]"
  unfolding add_pipeline_gate_answer using text_answer_text by (simp split: prod.splits sum.splits)

text \<open>
  C9. Every one of the 22 handlers returns normally, whatever its arguments, the service
  and the requests sent before, and its result is a single text item. For the tools that
  make one call and render one field of its result, the answer is \<open>text_answer\<close> of the
  outcome of that call: the error text of the tool with the message of the error when the
  call or the read of the field throws, the success text with the rendering of the field
  otherwise. \<open>upload_issue_data\<close> answers with its error text before any request when
  \<open>issues.map\<close> throws; \<open>test_graphql_connection\<close> renders the number of schema types;
  \<open>add_pipeline_gate\<close> answers with its error text when step 1 throws and renders the
  attached gate otherwise.
\<close>

theorem tool_handlers_return_text:
  "get_release_events cfg remote first dateRange status state log =
       text_answer ''Release events retrieved: '' ''Error retrieving release events: '' ''releaseEventsSearch''
         (executeGraphQL cfg remote GetReleaseEvents_doc
            (JObj [(''first'', first),
                (''dateRange'', dateRange),
                (''status'', status),
                (''state'', state)]) log)
   \<and> create_release_event cfg remote name teamId teamName start end' description tags isEvent summary log =
       text_answer ''Release event created: '' ''Error creating release event: '' ''addReleaseEvent''
         (executeGraphQL cfg remote AddReleaseEvent_doc
            (JObj [(''name'', name),
                (''team'', JObj [(''id'', teamId), (''name'', teamName), (''tenantId'', JStr (tenantId cfg))]),
                (''start'', start),
                (''end'', end'),
                (''description'', description),
                (''tags'', tags),
                (''isEvent'', isEvent),
                (''summary'', summary)]) log)
   \<and> get_pipelines_by_tenant cfg remote providedTenantId log =
       text_answer ''Pipelines retrieved: '' ''Error retrieving pipelines: '' ''pipelinesByTenantId''
         (executeGraphQL cfg remote GetPipelinesByTenant_doc
            (JObj [(''tenantId'', js_or providedTenantId (JStr (tenantId cfg)))]) log)
   \<and> create_pipeline cfg remote pipelineName pipelineDesc teamId teamName defaultEnvironments log =
       text_answer ''Pipeline created: '' ''Error creating pipeline: '' ''composeNewPipeline''
         (executeGraphQL cfg remote ComposeNewPipeline_doc
            (JObj [(''pipelineId'', JNull),
                (''pipelineName'', pipelineName),
                (''pipelineDesc'', js_or pipelineDesc (JStr [])),
                (''organizationId'', JStr (tenantId cfg)),
                (''team'', JObj [(''id'', teamId), (''name'', teamName)]),
                (''defaultEnvironments'', boolean_or_null defaultEnvironments)]) log)
   \<and> get_workflows_for_tenant cfg remote providedTenantId log =
       text_answer ''Workflows retrieved: '' ''Error retrieving workflows: '' ''workflowsForTenant''
         (executeGraphQL cfg remote GetWorkflowsForTenant_doc
            (JObj [(''tenantId'', js_or providedTenantId (JStr (tenantId cfg)))]) log)
   \<and> get_particles_by_stage cfg remote workflowId stageName particleIds skip limit log =
       text_answer ''Particles retrieved: '' ''Error retrieving particles: '' ''particlesByStage''
         (executeGraphQL cfg remote GetParticlesByStage_doc
            (JObj [(''workflowId'', workflowId),
                (''stageName'', stageName),
                (''particleIds'', particleIds),
                (''pagination'', pagination skip limit)]) log)
   \<and> get_issues cfg remote providedTenantId internalIds skip limit log =
       text_answer ''Issues retrieved: '' ''Error retrieving issues: '' ''issues''
         (executeGraphQL cfg remote GetIssues_doc
            (JObj [(''filter'', JObj
                  [(''tenantId'', js_or providedTenantId (JStr (tenantId cfg))),
                   (''internalIds'', internalIds),
                   (''skip'', js_or skip (JNum ''0'')),
                   (''limit'', js_or limit (JNum ''100''))])]) log)
   \<and> get_deployment_metrics cfg remote teamIds appIds relativeTime customStartDate customEndDate queryString skip limit log =
       text_answer ''Deployment metrics retrieved: '' ''Error retrieving deployment metrics: '' ''deployments''
         (executeGraphQL cfg remote GetDeployments_doc
            (JObj [(''query'', JObj
                  [(''tenantId'', JStr (tenantId cfg)),
                   (''teamIds'', teamIds),
                   (''appIds'', appIds),
                   (''relativeTime'', relativeTime),
                   (''customStartDate'', customStartDate),
                   (''customEndDate'', customEndDate),
                   (''queryString'', queryString),
                   (''pagination'', pagination skip limit)])]) log)
   \<and> get_build_data cfg remote teamIds appIds relativeTime customStartDate customEndDate source status skip limit log =
       text_answer ''Build data retrieved: '' ''Error retrieving build data: '' ''builds''
         (executeGraphQL cfg remote GetBuilds_doc
            (JObj [(''query'', JObj
                  [(''filters'', JObj
                     [(''tenantId'', JStr (tenantId cfg)),
                      (''teamIds'', teamIds),
                      (''appIds'', appIds),
                      (''relativeTime'', relativeTime),
                      (''customStartDate'', customStartDate),
                      (''customEndDate'', customEndDate),
                      (''source'', source),
                      (''status'', status)]),
                   (''pagination'', pagination skip limit)])]) log)
   \<and> get_teams_by_tenant cfg remote providedTenantId roleIds log =
       text_answer ''Teams retrieved: '' ''Error retrieving teams: '' ''teamsByTenantId''
         (executeGraphQL cfg remote GetTeamsByTenant_doc
            (JObj [(''tenantId'', js_or providedTenantId (JStr (tenantId cfg))),
                (''roleIds'', roleIds)]) log)
   \<and> create_team cfg remote name providedTenantId log =
       text_answer ''Team created: '' ''Error creating team: '' ''addNewTeam''
         (executeGraphQL cfg remote AddNewTeam_doc
            (JObj [(''name'', name),
                (''tenantId'', js_or providedTenantId (JStr (tenantId cfg)))]) log)
   \<and> get_applications_by_criteria cfg remote parentsOnly types integrationId name fuzzyName tags limit offset log =
       text_answer ''Applications retrieved: '' ''Error retrieving applications: '' ''applicationsByCriteria''
         (executeGraphQL cfg remote GetApplicationsByCriteria_doc
            (JObj [(''data'', JObj
                  [(''tenantId'', JStr (tenantId cfg)),
                   (''parentsOnly'', parentsOnly),
                   (''types'', types),
                   (''integrationId'', integrationId),
                   (''name'', name),
                   (''fuzzyName'', fuzzyName),
                   (''tags'', tags),
                   (''limit'', limit),
                   (''offset'', offset)])]) log)
   \<and> get_integrations_by_tenant cfg remote providedTenantId log =
       text_answer ''Integrations retrieved: '' ''Error retrieving integrations: '' ''integrationsByTenantId''
         (executeGraphQL cfg remote GetIntegrationsByTenant_doc
            (JObj [(''tenantId'', js_or providedTenantId (JStr (tenantId cfg)))]) log)
   \<and> get_my_access_key_metadata cfg remote log =
       text_answer ''Access key metadata: '' ''Error retrieving access key metadata: '' ''myAccessKeyMetaData''
         (executeGraphQL cfg remote MyAccessKeyMetaData_doc
            (JObj []) log)
   \<and> add_application_stages cfg remote pipeline_id stage_id environments log =
       text_answer ''Application stages added: '' ''Error adding application stages: '' ''addApplicationStages''
         (executeGraphQL cfg remote AddApplicationStages_doc
            (JObj [(''pipelineId'', pipeline_id),
                (''stageId'', stage_id),
                (''environments'', environments)]) log)
   \<and> add_stage cfg remote pipeline_id stage log =
       text_answer ''Stage added: '' ''Error adding stage: '' ''addStage''
         (executeGraphQL cfg remote AddStage_doc
            (JObj [(''pipelineId'', pipeline_id),
                (''stage'', stage)]) log)
   \<and> update_stage cfg remote pipeline_id stage_id updates log =
       text_answer ''Stage updated: '' ''Error updating stage: '' ''updateStage''
         (executeGraphQL cfg remote UpdateStage_doc
            (JObj [(''pipelineId'', pipeline_id),
                (''stageId'', stage_id),
                (''updates'', updates)]) log)
   \<and> delete_stage cfg remote pipeline_id stage_id log =
       text_answer ''Stage deleted: '' ''Error deleting stage: '' ''deleteStage''
         (executeGraphQL cfg remote DeleteStage_doc
            (JObj [(''pipelineId'', pipeline_id),
                (''stageId'', stage_id)]) log)
   \<and> update_workflow cfg remote workflowId updates log =
       text_answer ''Workflow updated: '' ''Error updating workflow: '' ''updateWorkflow''
         (executeGraphQL cfg remote UpdateWorkflow_doc
            (JObj [(''workflowId'', workflowId),
                (''updates'', updates)]) log)
   \<and> upload_issue_data cfg remote source trackerId baseUrl issues log =
       (case normalized_issues issues of
          Inl e \<Rightarrow> (Inr [TextItem (''Error uploading issue data: '' @ message e)], log)
        | Inr normalized \<Rightarrow>
            text_answer ''Issue data uploaded: '' ''Error uploading issue data: '' ''uploadIssueData''
              (executeGraphQL cfg remote UploadIssueData_doc
                 (JObj [(''data'', JObj
                    [(''source'', source),
                     (''trackerId'', trackerId),
                     (''tenantId'', JStr (tenantId cfg)),
                     (''baseUrl'', baseUrl),
                     (''issues'', normalized)])]) log))
   \<and> test_graphql_connection cfg remote log =
       (case executeGraphQL cfg remote TestConnection_doc (JObj []) log of
          (Inl e, log') \<Rightarrow> (Inr [TextItem (''GraphQL connection test failed: '' @ message e)], log')
        | (Inr result, log') \<Rightarrow>
            (case schema_types_length result of
               Inl e \<Rightarrow> (Inr [TextItem (''GraphQL connection test failed: '' @ message e)], log')
             | Inr count \<Rightarrow>
                 (Inr [TextItem (''GraphQL connection test successful: Found '' @ count
                                  @ '' schema types'')], log')))
   \<and> add_pipeline_gate cfg remote a log =
       (case create_rule cfg remote a log of
          (Inl e, log1) \<Rightarrow> (Inr [TextItem (''Error adding gate: '' @ message e)], log1)
        | (Inr ruleId, log1) \<Rightarrow>
            text_answer ''Gate added to pipeline stage: '' ''Error adding gate: '' ''upsertPipelineGate''
              (executeGraphQL cfg remote UpsertPipelineGate_doc (upsertVars a ruleId) log1))
   \<and> (\<exists>t. fst (text_answer okp errp fld outcome) = Inr [TextItem t])
   \<and> (\<exists>t. fst (upload_issue_data cfg remote source trackerId baseUrl issues log) = Inr [TextItem t])
   \<and> (\<exists>t. fst (test_graphql_connection cfg remote log) = Inr [TextItem t])
   \<and> (\<exists>t. fst (add_pipeline_gate cfg remote a log) = Inr [TextItem t])"
  by (intro conjI
      simple_tool_answer [OF get_release_events_def]
      simple_tool_answer [OF create_release_event_def]
      simple_tool_answer [OF get_pipelines_by_tenant_def]
      simple_tool_answer [OF create_pipeline_def]
      simple_tool_answer [OF get_workflows_for_tenant_def]
      simple_tool_answer [OF get_particles_by_stage_def]
      simple_tool_answer [OF get_issues_def]
      simple_tool_answer [OF get_deployment_metrics_def]
      simple_tool_answer [OF get_build_data_def]
      simple_tool_answer [OF get_teams_by_tenant_def]
      simple_tool_answer [OF create_team_def]
      simple_tool_answer [OF get_applications_by_criteria_def]
      simple_tool_answer [OF get_integrations_by_tenant_def]
      simple_tool_answer [OF get_my_access_key_metadata_def]
      simple_tool_answer [OF add_application_stages_def]
      simple_tool_answer [OF add_stage_def]
      simple_tool_answer [OF update_stage_def]
      simple_tool_answer [OF delete_stage_def]
      simple_tool_answer [OF update_workflow_def]
      upload_issue_data_answer test_graphql_connection_answer add_pipeline_gate_answer
      text_answer_text upload_issue_data_text test_graphql_connection_text add_pipeline_gate_text)



text \<open>
  A status 500 from the service comes back as the error text of the tool, and an empty
  list of pipelines as the success text.
\<close>

theorem tool_handlers_return_text_witness:
  "add_pipeline_gate cfg_key remote_500 manual_args [] =
     (Inr [TextItem ''Error adding gate: HTTP 500: Internal Server Error''],
      [graphql_request cfg_key AddManualVersionSignOffRule_doc
         (JObj [(''input'', JObj [(''name'', JStr ''Approval''), (''pipelineId'', JStr ''p1''),
                                  (''approvers'', JArr [user_u1])])])])
   \<and> get_release_events cfg_key remote_500 JUndefined JUndefined JUndefined JUndefined [] =
     (Inr [TextItem ''Error retrieving release events: HTTP 500: Internal Server Error''],
      [graphql_request cfg_key GetReleaseEvents_doc
         (JObj [(''first'', JUndefined), (''dateRange'', JUndefined),
                (''status'', JUndefined), (''state'', JUndefined)])])
   \<and> get_pipelines_by_tenant cfg_key remote_data JUndefined [] =
     (Inr [TextItem ''Pipelines retrieved: []''],
      [graphql_request cfg_key GetPipelinesByTenant_doc (JObj [(''tenantId'', JStr ''tenant-1'')])])"
proof -
  have create: "create_rule cfg_key remote_500 manual_args [] =
      (Inl (Error ''HTTP 500: Internal Server Error''),
       [graphql_request cfg_key AddManualVersionSignOffRule_doc
          (JObj [(''input'', JObj [(''name'', JStr ''Approval''), (''pipelineId'', JStr ''p1''),
                                   (''approvers'', JArr [user_u1])])])])"
    by (simp add: create_rule_eq manual_args_request submit_rule_eq
        handle_response_def ok_def remote_500_def show_nat_500)
  have empty: "interpolate (json_stringify2 (JArr [])) = ''[]''"
    by code_simp
  note at_500 = tool_handlers_return_text [where cfg = cfg_key and remote = remote_500
      and log = "[]" and a = manual_args and first = JUndefined and dateRange = JUndefined
      and status = JUndefined and state = JUndefined]
  note at_data = tool_handlers_return_text [where cfg = cfg_key and remote = remote_data
      and log = "[]" and providedTenantId = JUndefined]
  have tenant: "tenantId cfg_key = ''tenant-1''" by (simp add: cfg_key_def)
  have gate: "add_pipeline_gate cfg_key remote_500 manual_args [] =
     (Inr [TextItem ''Error adding gate: HTTP 500: Internal Server Error''],
      [graphql_request cfg_key AddManualVersionSignOffRule_doc
         (JObj [(''input'', JObj [(''name'', JStr ''Approval''), (''pipelineId'', JStr ''p1''),
                                  (''approvers'', JArr [user_u1])])])])"
    using at_500 [THEN conjunct2, THEN conjunct2, THEN conjunct2, THEN conjunct2, THEN conjunct2, THEN conjunct2, THEN conjunct2, THEN conjunct2, THEN conjunct2, THEN conjunct2, THEN conjunct2, THEN conjunct2, THEN conjunct2, THEN conjunct2, THEN conjunct2, THEN conjunct2, THEN conjunct2, THEN conjunct2, THEN conjunct2, THEN conjunct2, THEN conjunct2, THEN conjunct1] by (simp add: create)
  have events: "get_release_events cfg_key remote_500 JUndefined JUndefined JUndefined JUndefined [] =
     (Inr [TextItem ''Error retrieving release events: HTTP 500: Internal Server Error''],
      [graphql_request cfg_key GetReleaseEvents_doc
         (JObj [(''first'', JUndefined), (''dateRange'', JUndefined),
                (''status'', JUndefined), (''state'', JUndefined)])])"
    using at_500 [THEN conjunct1]
    by (simp add: text_answer_def executeGraphQL_eq handle_response_def ok_def remote_500_def
        show_nat_500)
  have pipelines: "get_pipelines_by_tenant cfg_key remote_data JUndefined [] =
     (Inr [TextItem ''Pipelines retrieved: []''],
      [graphql_request cfg_key GetPipelinesByTenant_doc (JObj [(''tenantId'', JStr ''tenant-1'')])])"
    using at_data [THEN conjunct2, THEN conjunct2, THEN conjunct1]
    by (simp add: text_answer_def executeGraphQL_eq handle_response_def ok_def remote_data_def
        json_response_def field_def js_or_def empty tenant)
  from gate events pipelines show ?thesis by simp
qed

text \<open>
  C10. In each of the six tools with an optional \<open>tenantId\<close> argument, a falsy argument
  (omitted, or the empty string) is replaced by the configured tenant identifier: the
  request sent holds \<open>tenantId cfg\<close>, which \<open>getConfig\<close> has checked to be non-empty.
\<close>

theorem tenant_fallback:
  assumes "\<not> truthy p" and "valid_config cfg"
  shows "tenantId cfg \<noteq> []
     \<and> snd (get_pipelines_by_tenant cfg remote p log) =
       log @ [graphql_request cfg GetPipelinesByTenant_doc (JObj [(''tenantId'', JStr (tenantId cfg))])]
     \<and> snd (get_workflows_for_tenant cfg remote p log) =
       log @ [graphql_request cfg GetWorkflowsForTenant_doc (JObj [(''tenantId'', JStr (tenantId cfg))])]
     \<and> snd (get_issues cfg remote p internalIds skip limit log) =
       log @ [graphql_request cfg GetIssues_doc (JObj [(''filter'', JObj
                [(''tenantId'', JStr (tenantId cfg)),
                 (''internalIds'', internalIds),
                 (''skip'', js_or skip (JNum ''0'')),
                 (''limit'', js_or limit (JNum ''100''))])])]
     \<and> snd (get_teams_by_tenant cfg remote p roleIds log) =
       log @ [graphql_request cfg GetTeamsByTenant_doc
                (JObj [(''tenantId'', JStr (tenantId cfg)), (''roleIds'', roleIds)])]
     \<and> snd (create_team cfg remote name p log) =
       log @ [graphql_request cfg AddNewTeam_doc
                (JObj [(''name'', name), (''tenantId'', JStr (tenantId cfg))])]
     \<and> snd (get_integrations_by_tenant cfg remote p log) =
       log @ [graphql_request cfg GetIntegrationsByTenant_doc (JObj [(''tenantId'', JStr (tenantId cfg))])]"
  using assms
  by (simp add: simple_tool_log [OF get_pipelines_by_tenant_def]
      simple_tool_log [OF get_workflows_for_tenant_def]
      simple_tool_log [OF get_issues_def]
      simple_tool_log [OF get_teams_by_tenant_def]
      simple_tool_log [OF create_team_def]
      simple_tool_log [OF get_integrations_by_tenant_def]
      executeGraphQL_eq js_or_def valid_config_def)

text \<open>An empty-string \<open>tenantId\<close> is not sent: the configured \<open>tenant-1\<close> is.\<close>

theorem tenant_fallback_witness:
  "snd (get_pipelines_by_tenant cfg_key remote_data (JStr []) []) =
     [graphql_request cfg_key GetPipelinesByTenant_doc (JObj [(''tenantId'', JStr ''tenant-1'')])]
   \<and> snd (create_team cfg_key remote_data (JStr ''core'') (JStr []) []) =
     [graphql_request cfg_key AddNewTeam_doc
        (JObj [(''name'', JStr ''core''), (''tenantId'', JStr ''tenant-1'')])]"
  using tenant_fallback [of "JStr []" cfg_key remote_data "[]" _ _ _ _ "JStr ''core''"]
  by (simp add: cfg_key_def valid_config_def)

end
